theory Spec2Isabelle
  imports Complex_Main
begin

section \<open>The scripts' view of the outside world\<close>

text \<open>
  The two scripts (\<^verbatim>\<open>aws_check.py\<close> and \<^verbatim>\<open>aws_metrics.py\<close>) are sequential
  programs over an environment they do not control: the external \<^verbatim>\<open>aws\<close> binary, the
  process environment, two configuration files, the clock and the file system.
  Python exceptions are values of the type \<open>exn\<close>; a computation is a function from the
  state of the world to a result (\<open>Inl\<close> an escaping exception, \<open>Inr\<close> a returned value)
  and the new state.
\<close>

datatype exn =
    FileNotFoundError
  | OSError
  | JSONDecodeError
  | RecursionError
  | AttributeError
  | TypeError
  | ValueError
  | OverflowError
  | OtherError string

text \<open>
  What \<^verbatim>\<open>subprocess.run(..., capture_output=True, text=True, timeout=t)\<close> does: it
  returns a completed process (exit code, standard output, standard error), or raises
  \<^verbatim>\<open>TimeoutExpired\<close>, \<^verbatim>\<open>FileNotFoundError\<close>, or something else
  (\<^verbatim>\<open>PermissionError\<close>, \<^verbatim>\<open>UnicodeDecodeError\<close>, ...), named by a string.
\<close>

datatype proc_outcome =
    Completed int string string
  | RaisedTimeoutExpired
  | RaisedFileNotFoundError
  | RaisedOther string

record CommandResult =
  success :: bool
  stdout :: string
  stderr :: string
  returncode :: int

text \<open>
  A printed line. Every \<^verbatim>\<open>print_*\<close> helper of the scripts wraps its text in a fixed
  colour and glyph; the constructor records which helper printed the text. \<open>Plain\<close> is a
  bare \<^verbatim>\<open>print\<close>, \<open>Help\<close> the usage text of \<^verbatim>\<open>parser.print_help()\<close>.
\<close>

datatype line =
    Header string
  | Success string
  | Error string
  | Warning string
  | Info string
  | Plain string
  | Help

text \<open>
  The mutable part of the world: the log of subprocess invocations (argument vector and
  timeout), the lines printed so far, and the file store (path to contents).
\<close>

record world =
  calls :: "(string list \<times> int) list"
  out :: "line list"
  files :: "string \<rightharpoonup> string"

type_synonym 'a prog = "world \<Rightarrow> (exn + 'a) \<times> world"

definition ret :: "'a \<Rightarrow> 'a prog" where
  "ret x = (\<lambda>w. (Inr x, w))"

definition raise_exn :: "exn \<Rightarrow> 'a prog" where
  "raise_exn x = (\<lambda>w. (Inl x, w))"

definition lift :: "exn + 'a \<Rightarrow> 'a prog" where
  "lift r = (\<lambda>w. (r, w))"

definition bnd :: "'a prog \<Rightarrow> ('a \<Rightarrow> 'b prog) \<Rightarrow> 'b prog" where
  "bnd m f = (\<lambda>w. case m w of (Inl x, w') \<Rightarrow> (Inl x, w') | (Inr a, w') \<Rightarrow> f a w')"

definition thn :: "'a prog \<Rightarrow> 'b prog \<Rightarrow> 'b prog" where
  "thn m k = bnd m (\<lambda>_. k)"

text \<open>A block of statements, run in order; the first exception ends the block.\<close>

fun block :: "unit prog list \<Rightarrow> unit prog" where
  "block [] = ret ()"
| "block (m # ms) = thn m (block ms)"

definition when_do :: "bool \<Rightarrow> unit prog \<Rightarrow> unit prog" where
  "when_do b m = (if b then m else ret ())"

text \<open>\<^verbatim>\<open>try: m except x: h\<close>: only the named exception is handled; what \<open>m\<close> did to the
  world before raising stays done.\<close>

definition try_except :: "'a prog \<Rightarrow> exn \<Rightarrow> 'a prog \<Rightarrow> 'a prog" where
  "try_except m x h =
     (\<lambda>w. case m w of
            (Inl y, w') \<Rightarrow> if y = x then h w' else (Inl y, w')
          | (Inr a, w') \<Rightarrow> (Inr a, w'))"

text \<open>\<^verbatim>\<open>try: m finally: fin\<close>: \<open>fin\<close> runs whether \<open>m\<close> returned or raised.\<close>

definition try_finally :: "'a prog \<Rightarrow> unit prog \<Rightarrow> 'a prog" where
  "try_finally m fin =
     (\<lambda>w. case m w of
            (r, w') \<Rightarrow> (case fin w' of (Inl x, w'') \<Rightarrow> (Inl x, w'') | (Inr _, w'') \<Rightarrow> (r, w'')))"

definition emit :: "line \<Rightarrow> unit prog" where
  "emit l = (\<lambda>w. (Inr (), w\<lparr>out := out w @ [l]\<rparr>))"

definition print_header :: "string \<Rightarrow> unit prog" where
  "print_header text = emit (Header text)"

definition print_success :: "string \<Rightarrow> unit prog" where
  "print_success text = emit (Success text)"

definition print_error :: "string \<Rightarrow> unit prog" where
  "print_error text = emit (Error text)"

definition print_warning :: "string \<Rightarrow> unit prog" where
  "print_warning text = emit (Warning text)"

definition print_info :: "string \<Rightarrow> unit prog" where
  "print_info text = emit (Info text)"

definition print :: "string \<Rightarrow> unit prog" where
  "print text = emit (Plain text)"

section \<open>The subprocess wrapper\<close>

text \<open>
  \<open>command_result\<close> is the body of \<^verbatim>\<open>run_aws_command\<close> after \<^verbatim>\<open>subprocess.run\<close> has
  returned or raised: the two \<^verbatim>\<open>except\<close> clauses turn a timeout and a missing binary
  into results, every other exception escapes. The function is textually the same in
  both scripts (\<^verbatim>\<open>aws_check.py\<close> lines 70-97, \<^verbatim>\<open>aws_metrics.py\<close> lines 76-103); they
  differ only in the default timeout (30 and 60 seconds), which the model passes at each
  call.
\<close>

fun command_result :: "proc_outcome \<Rightarrow> exn + CommandResult" where
  "command_result (Completed rc sout serr) =
     Inr \<lparr>success = (rc = 0), stdout = sout, stderr = serr, returncode = rc\<rparr>"
| "command_result RaisedTimeoutExpired =
     Inr \<lparr>success = False, stdout = [], stderr = ''Command timed out'', returncode = - 1\<rparr>"
| "command_result RaisedFileNotFoundError =
     Inr \<lparr>success = False, stdout = [], stderr = ''AWS CLI not found'', returncode = - 1\<rparr>"
| "command_result (RaisedOther x) = Inl (OtherError x)"

text \<open>
  \<open>run\<close> is the environment's \<^verbatim>\<open>subprocess.run\<close>: what the \<open>n\<close>-th invocation of the
  run (counting from 0) does, given its argument vector and timeout.
\<close>

definition run_aws_command ::
  "(nat \<Rightarrow> string list \<Rightarrow> int \<Rightarrow> proc_outcome) \<Rightarrow> string list \<Rightarrow> int \<Rightarrow> CommandResult prog" where
  "run_aws_command run args timeout =
     (\<lambda>w. (command_result (run (length (calls w)) (''aws'' # args) timeout),
           w\<lparr>calls := calls w @ [(''aws'' # args, timeout)]\<rparr>))"

section \<open>Python values and string operations\<close>

text \<open>
  The values \<^verbatim>\<open>json.loads\<close> produces. A Python float is a finite real, an infinity
  or NaN (the parser accepts the literals \<^verbatim>\<open>Infinity\<close> and \<^verbatim>\<open>NaN\<close>); a dict is
  the list of its items in insertion order. A Python string is a \<open>string\<close>, one
  \<open>char\<close> for each character; the characters of the model are those below U+0100.
\<close>

datatype pyfloat = Finite real | PosInf | NegInf | NaN

datatype json =
    JNull
  | JBool bool
  | JInt int
  | JFloat pyfloat
  | JStr string
  | JArr "json list"
  | JObj "(string \<times> json) list"

text \<open>Truth value of a Python object, as \<^verbatim>\<open>if x:\<close> tests it.\<close>

fun truthy :: "json \<Rightarrow> bool" where
  "truthy JNull = False"
| "truthy (JBool b) = b"
| "truthy (JInt i) = (i \<noteq> 0)"
| "truthy (JFloat f) = (f \<noteq> Finite 0)"
| "truthy (JStr s) = (s \<noteq> [])"
| "truthy (JArr xs) = (xs \<noteq> [])"
| "truthy (JObj kvs) = (kvs \<noteq> [])"

text \<open>Truth value of an optional string (\<^verbatim>\<open>None\<close> and \<^verbatim>\<open>""\<close> are false).\<close>

fun truthy_str :: "string option \<Rightarrow> bool" where
  "truthy_str None = False"
| "truthy_str (Some s) = (s \<noteq> [])"

text \<open>\<^verbatim>\<open>for x in v\<close>: a list gives its elements, a dict its keys, a string its
  characters; anything else is not iterable.\<close>

fun py_iter :: "json \<Rightarrow> exn + json list" where
  "py_iter (JArr xs) = Inr xs"
| "py_iter (JObj kvs) = Inr (map (\<lambda>kv. JStr (fst kv)) kvs)"
| "py_iter (JStr s) = Inr (map (\<lambda>c. JStr [c]) s)"
| "py_iter _ = Inl TypeError"

text \<open>\<^verbatim>\<open>a, b, ... = v\<close> with \<open>n\<close> targets.\<close>

definition py_unpack :: "nat \<Rightarrow> json \<Rightarrow> exn + json list" where
  "py_unpack n v =
     (case py_iter v of
        Inl x \<Rightarrow> Inl x
      | Inr xs \<Rightarrow> if length xs = n then Inr xs else Inl ValueError)"

text \<open>\<^verbatim>\<open>v.get(key, default)\<close>: only a dict has the method.\<close>

fun py_get :: "json \<Rightarrow> string \<Rightarrow> json \<Rightarrow> exn + json" where
  "py_get (JObj kvs) k d = Inr (case map_of kvs k of Some v \<Rightarrow> v | None \<Rightarrow> d)"
| "py_get _ k d = Inl AttributeError"

text \<open>\<^verbatim>\<open>v[:10]\<close>: lists and strings can be sliced. (A dict raises \<^verbatim>\<open>TypeError\<close> up to
  Python 3.11 and \<^verbatim>\<open>KeyError\<close> from 3.12 on; no handler of the scripts catches
  either.)\<close>

fun py_slice10 :: "json \<Rightarrow> exn + json" where
  "py_slice10 (JArr xs) = Inr (JArr (take 10 xs))"
| "py_slice10 (JStr s) = Inr (JStr (take 10 s))"
| "py_slice10 _ = Inl TypeError"

fun py_len :: "json \<Rightarrow> exn + nat" where
  "py_len (JArr xs) = Inr (length xs)"
| "py_len (JStr s) = Inr (length s)"
| "py_len (JObj kvs) = Inr (length kvs)"
| "py_len _ = Inl TypeError"

text \<open>\<^verbatim>\<open>s.split(c)\<close> for a one-character separator: never empty.\<close>

fun str_split :: "char \<Rightarrow> string \<Rightarrow> string list" where
  "str_split c [] = [[]]"
| "str_split c (x # xs) =
     (if x = c then [] # str_split c xs
      else (case str_split c xs of [] \<Rightarrow> [[x]] | y # ys \<Rightarrow> (x # y) # ys))"

text \<open>\<^verbatim>\<open>v.split("/")[-1]\<close>: only a string has the method.\<close>

fun py_split_last :: "json \<Rightarrow> exn + string" where
  "py_split_last (JStr s) = Inr (last (str_split CHR ''/'' s))"
| "py_split_last _ = Inl AttributeError"

text \<open>\<^verbatim>\<open>s.split(c, 1)\<close>: split at the first occurrence of the separator, if any.\<close>

definition str_split1 :: "char \<Rightarrow> string \<Rightarrow> string list" where
  "str_split1 c s =
     (case dropWhile (\<lambda>x. x \<noteq> c) s of
        [] \<Rightarrow> [s]
      | _ # rest \<Rightarrow> [takeWhile (\<lambda>x. x \<noteq> c) s, rest])"

text \<open>The characters \<^verbatim>\<open>str.strip()\<close> removes: tab to carriage return, the four
  separators 28 to 31, space, and the two whitespace characters of Latin-1, U+0085 (next
  line) and U+00A0 (no-break space).\<close>

definition py_isspace :: "char \<Rightarrow> bool" where
  "py_isspace c =
     (let n = (of_char c :: nat)
      in (9 \<le> n \<and> n \<le> 13) \<or> (28 \<le> n \<and> n \<le> 32) \<or> n = 133 \<or> n = 160)"

definition strip :: "string \<Rightarrow> string" where
  "strip s = rev (dropWhile py_isspace (rev (dropWhile py_isspace s)))"

definition startswith :: "string \<Rightarrow> string \<Rightarrow> bool" where
  "startswith s p = (take (length p) s = p)"

text \<open>\<^verbatim>\<open>s.replace(old, new)\<close>: every non-overlapping occurrence, from the left. With an
  empty \<open>old\<close> Python inserts \<open>new\<close> before every character and at the end.\<close>

function str_replace :: "string \<Rightarrow> string \<Rightarrow> string \<Rightarrow> string" where
  "str_replace old new s =
     (if old = [] then new @ concat (map (\<lambda>c. c # new) s)
      else if s = [] then []
      else if take (length old) s = old then new @ str_replace old new (drop (length old) s)
      else hd s # str_replace old new (tl s))"
  by pat_completeness auto
termination
  by (relation "measure (\<lambda>(old, new, s). length s)") auto

declare str_replace.simps [simp del]

text \<open>\<^verbatim>\<open>str(n)\<close> for an integer.\<close>

definition digit :: "nat \<Rightarrow> char" where
  "digit d = ''0123456789'' ! d"

fun str_nat :: "nat \<Rightarrow> string" where
  "str_nat n =
     (if n < 10 then [digit n]
      else str_nat (n div 10) @ [digit (n mod 10)])"

declare str_nat.simps [simp del]

definition str_int :: "int \<Rightarrow> string" where
  "str_int i = (if i < 0 then CHR ''-'' # str_nat (nat (- i)) else str_nat (nat i))"

text \<open>\<^verbatim>\<open>f"{s:25}"\<close>: pad on the right to 25 characters.\<close>

definition ljust :: "nat \<Rightarrow> string \<Rightarrow> string" where
  "ljust n s = s @ replicate (n - length s) CHR '' ''"

fun for_each :: "'a list \<Rightarrow> ('a \<Rightarrow> unit prog) \<Rightarrow> unit prog" where
  "for_each [] f = ret ()"
| "for_each (x # xs) f = thn (f x) (for_each xs f)"

section \<open>The environment\<close>

text \<open>
  Everything the scripts read from outside, fixed for one run:
  \<^item> \<open>subprocess_run\<close>: the external process (see \<open>run_aws_command\<close>);
  \<^item> \<open>which_aws\<close>: \<^verbatim>\<open>shutil.which("aws")\<close>;
  \<^item> \<open>environ\<close>: \<^verbatim>\<open>os.environ\<close>;
  \<^item> \<open>config_file\<close>, \<open>credentials_file\<close>: the lines of \<^verbatim>\<open>~/.aws/config\<close> and
    \<^verbatim>\<open>~/.aws/credentials\<close> as iteration over the file yields them, \<open>None\<close> when the
    file does not exist;
  \<^item> \<open>json_loads\<close>: the standard library's \<^verbatim>\<open>json.loads\<close>, which returns the
    decoded value or raises: \<^verbatim>\<open>JSONDecodeError\<close> on text it rejects, and on some texts
    another exception (\<^verbatim>\<open>RecursionError\<close> on text that nests too deep,
    \<^verbatim>\<open>ValueError\<close> on a number with more digits than the interpreter converts);
  \<^item> \<open>py_str\<close>: how an f-string renders a value; \<open>json_dump\<close>: \<^verbatim>\<open>json.dump\<close>;
  \<^item> \<open>now\<close>: \<^verbatim>\<open>datetime.now(timezone.utc)\<close> in microseconds since
    0001-01-01T00:00:00; \<open>strftime\<close>: the rendering of such an instant with the format
    \<^verbatim>\<open>%Y-%m-%dT%H:%M:%SZ\<close>;
  \<^item> \<open>tmp_name\<close>: the name \<^verbatim>\<open>tempfile.NamedTemporaryFile\<close> picks;
  \<^item> \<open>file_write\<close>: what \<^verbatim>\<open>open(path, "w")\<close> followed by one \<^verbatim>\<open>write\<close> of a text
    does (also \<^verbatim>\<open>NamedTemporaryFile\<close> followed by \<^verbatim>\<open>json.dump\<close>): the text is
    written; or the file cannot be created or opened and nothing changes (a missing
    directory, a directory in place of the file, no permission); or the file is opened,
    hence truncated, and the write or the closing flush fails, leaving a part of the
    text. Both failures raise an \<^verbatim>\<open>OSError\<close>;
  \<^item> \<open>removable\<close>: the paths \<^verbatim>\<open>Path.unlink\<close> can remove (elsewhere it raises an
    \<^verbatim>\<open>OSError\<close>);
  \<^item> \<open>byte_length\<close>: the number of bytes the platform's text encoding writes for a text.
\<close>

datatype write_outcome =
    Written
  | OpenRaised
  | WriteRaised string

datatype loads_outcome =
    Decoded json
  | Raised exn

record env =
  subprocess_run :: "nat \<Rightarrow> string list \<Rightarrow> int \<Rightarrow> proc_outcome"
  which_aws :: "string option"
  environ :: "string \<rightharpoonup> string"
  config_file :: "string list option"
  credentials_file :: "string list option"
  json_loads :: "string \<Rightarrow> loads_outcome"
  py_str :: "json \<Rightarrow> string"
  json_dump :: "json \<Rightarrow> string"
  now :: int
  strftime :: "int \<Rightarrow> string"
  tmp_name :: string
  file_write :: "string \<Rightarrow> string \<Rightarrow> write_outcome"
  removable :: "string \<Rightarrow> bool"
  byte_length :: "string \<Rightarrow> nat"

definition loads :: "env \<Rightarrow> string \<Rightarrow> json prog" where
  "loads e s =
     (case json_loads e s of
        Decoded v \<Rightarrow> ret v
      | Raised x \<Rightarrow> raise_exn x)"

definition aws :: "env \<Rightarrow> string list \<Rightarrow> int \<Rightarrow> CommandResult prog" where
  "aws e args timeout = run_aws_command (subprocess_run e) args timeout"

section \<open>The check tool (\<^verbatim>\<open>aws_check.py\<close>)\<close>

definition check_cli_installed :: "env \<Rightarrow> bool prog" where
  "check_cli_installed e =
     thn (print_header ''AWS CLI Installation'')
     (if \<not> truthy_str (which_aws e) then
        thn (block
          [print_error ''AWS CLI not found in PATH'',
           print (CHR 0x0A # ''Install with:''),
           print ''  macOS:  brew install awscli'',
           print (''  Linux:  curl '' @ [CHR 0x27]
                  @ ''https://awscli.amazonaws.com/awscli-exe-linux-x86_64.zip'' @ [CHR 0x27]
                  @ '' -o '' @ [CHR 0x27] @ ''awscliv2.zip'' @ [CHR 0x27])])
        (ret False)
      else
        bnd (aws e [''--version''] 30) (\<lambda>result.
          if success result then
            thn (block
              [print_success (''AWS CLI installed: '' @ strip (stdout result)),
               print_info (''Path: '' @ (case which_aws e of Some aws_path \<Rightarrow> aws_path | None \<Rightarrow> []))])
            (ret True)
          else
            thn (print_error (''Failed to get AWS CLI version: '' @ stderr result))
            (ret False)))"

text \<open>The argument lists of the invocations whose output the scripts parse are named,
  so that statements about them can refer to them.\<close>

definition identity_cmd :: "string list" where
  "identity_cmd = [''sts'', ''get-caller-identity'', ''--output'', ''json'']"

definition check_identity :: "env \<Rightarrow> bool prog" where
  "check_identity e =
     thn (print_header ''AWS Identity'')
     (bnd (aws e identity_cmd 30) (\<lambda>result.
        if \<not> success result then
          thn (block
            [print_error ''Failed to get caller identity'',
             print (stderr result),
             print (CHR 0x0A # ''Check your credentials:''),
             print ''  aws configure'',
             print ''  aws configure --profile <profile-name>''])
          (ret False)
        else
          try_except
            (bnd (loads e (stdout result)) (\<lambda>identity.
             thn (print_success ''Authenticated successfully'')
             (bnd (lift (py_get identity ''Account'' (JStr ''N/A''))) (\<lambda>account.
             thn (print_info (''Account:  '' @ py_str e account))
             (bnd (lift (py_get identity ''Arn'' (JStr ''N/A''))) (\<lambda>arn.
             thn (print_info (''ARN:      '' @ py_str e arn))
             (bnd (lift (py_get identity ''UserId'' (JStr ''N/A''))) (\<lambda>user_id.
             thn (print_info (''User ID:  '' @ py_str e user_id))
             (thn (case environ e ''AWS_PROFILE'' of
                     Some profile \<Rightarrow> when_do (profile \<noteq> []) (print_info (''Profile:  '' @ profile))
                   | None \<Rightarrow> ret ())
             (bnd (aws e [''configure'', ''get'', ''region''] 30) (\<lambda>region_result.
             thn (print_info (''Region:   '' @
                    (if success region_result then strip (stdout region_result) else ''not set'')))
             (ret True))))))))))))
            JSONDecodeError
            (thn (print_error ''Invalid JSON response from AWS CLI'') (ret False))))"

definition required_tests :: "(string \<times> string list) list" where
  "required_tests =
     [(''ecs:ListClusters'', [''ecs'', ''list-clusters'', ''--max-results'', ''1'']),
      (''ec2:DescribeInstances'', [''ec2'', ''describe-instances'', ''--max-results'', ''1'']),
      (''ec2:DescribeRegions'', [''ec2'', ''describe-regions'', ''--max-results'', ''1'']),
      (''lambda:ListFunctions'', [''lambda'', ''list-functions'', ''--max-items'', ''1'']),
      (''cloudwatch:DescribeAlarms'', [''cloudwatch'', ''describe-alarms'', ''--max-records'', ''1'']),
      (''cloudwatch:ListMetrics'', [''cloudwatch'', ''list-metrics'', ''--namespace'', ''AWS/EC2'']),
      (''rds:DescribeDBInstances'', [''rds'', ''describe-db-instances'', ''--max-records'', ''1'']),
      (''elbv2:DescribeLoadBalancers'', [''elbv2'', ''describe-load-balancers'', ''--page-size'', ''1'']),
      (''s3:ListBuckets'', [''s3api'', ''list-buckets'']),
      (''sts:GetCallerIdentity'', [''sts'', ''get-caller-identity''])]"

definition optional_tests :: "(string \<times> string list) list" where
  "optional_tests =
     [(''ce:GetCostAndUsage'',
         [''ce'', ''get-cost-and-usage'',
          ''--time-period'', ''Start=2024-01-01,End=2024-01-02'',
          ''--granularity'', ''DAILY'',
          ''--metrics'', ''BlendedCost'']),
      (''securityhub:GetFindings'', [''securityhub'', ''get-findings'', ''--max-results'', ''1'']),
      (''guardduty:ListDetectors'', [''guardduty'', ''list-detectors'', ''--max-results'', ''1'']),
      (''elasticbeanstalk:DescribeEnvironments'',
         [''elasticbeanstalk'', ''describe-environments'', ''--max-records'', ''1''])]"

text \<open>The loop over the required tests, with the two counters \<open>passed\<close> and \<open>failed\<close>.\<close>

fun required_loop :: "env \<Rightarrow> (string \<times> string list) list \<Rightarrow> nat \<Rightarrow> nat \<Rightarrow> (nat \<times> nat) prog" where
  "required_loop e [] passed failed = ret (passed, failed)"
| "required_loop e (pc # rest) passed failed =
     bnd (aws e (snd pc) 30) (\<lambda>result.
       if success result then
         thn (print_success (fst pc)) (required_loop e rest (passed + 1) failed)
       else
         thn (print_error (fst pc)) (required_loop e rest passed (failed + 1)))"

definition optional_probe :: "env \<Rightarrow> string \<times> string list \<Rightarrow> unit prog" where
  "optional_probe e pc =
     bnd (aws e (snd pc) 30) (\<lambda>result.
       if success result then print_success (fst pc)
       else print_warning (fst pc @ '' (not available or not enabled)''))"

definition check_permissions :: "env \<Rightarrow> bool prog" where
  "check_permissions e =
     thn (print_header ''Dash Monitoring Permissions'')
     (bnd (required_loop e required_tests 0 0) (\<lambda>pf.
      thn (block
        [print [],
         print_info ''Optional permissions (may require service activation):'',
         for_each optional_tests (optional_probe e),
         print [],
         print (''Required permissions: '' @ str_nat (fst pf) @ '' passed, ''
                @ str_nat (snd pf) @ '' failed'')])
      (ret (snd pf = 0))))"

text \<open>
  \<^verbatim>\<open>discover_services\<close> is five sections in a row, each with its own
  \<^verbatim>\<open>try ... except json.JSONDecodeError\<close>; the model names the sections. The body of
  the loop over the ECS clusters comes first.
\<close>

definition ecs_services_cmd :: "string \<Rightarrow> string list" where
  "ecs_services_cmd cluster =
     [''ecs'', ''list-services'',
      ''--cluster'', cluster,
      ''--query'', ''serviceArns[*]'',
      ''--output'', ''json'']"

definition ecs_cluster :: "env \<Rightarrow> json \<Rightarrow> unit prog" where
  "ecs_cluster e cluster_arn =
     bnd (lift (py_split_last cluster_arn)) (\<lambda>cluster_name.
     thn (print_info cluster_name)
     (bnd (aws e (ecs_services_cmd (case cluster_arn of JStr arn \<Rightarrow> arn | _ \<Rightarrow> [])) 30)
        (\<lambda>svc_result.
      when_do (success svc_result)
        (bnd (loads e (stdout svc_result)) (\<lambda>services.
         bnd (lift (py_iter services)) (\<lambda>items.
         for_each items (\<lambda>service_arn.
           bnd (lift (py_split_last service_arn)) (\<lambda>service_name.
           print (''    - '' @ service_name)))))))))"

definition ecs_clusters_cmd :: "string list" where
  "ecs_clusters_cmd =
     [''ecs'', ''list-clusters'', ''--query'', ''clusterArns[*]'', ''--output'', ''json'']"

definition discover_ecs :: "env \<Rightarrow> unit prog" where
  "discover_ecs e =
     thn (print ''ECS Clusters:'')
     (bnd (aws e ecs_clusters_cmd 30)
        (\<lambda>result.
          if success result then
            try_except
              (bnd (loads e (stdout result)) (\<lambda>clusters.
                 if truthy clusters then
                   bnd (lift (py_iter clusters)) (\<lambda>items. for_each items (ecs_cluster e))
                 else print_warning ''No ECS clusters found''))
              JSONDecodeError
              (print_error ''Failed to parse ECS clusters response'')
          else print_error ''Failed to list ECS clusters''))"

text \<open>\<^verbatim>\<open>[inst for res in reservations for inst in res]\<close>\<close>

fun flatten :: "json list \<Rightarrow> exn + json list" where
  "flatten [] = Inr []"
| "flatten (res # rest) =
     (case py_iter res of
        Inl x \<Rightarrow> Inl x
      | Inr xs \<Rightarrow> (case flatten rest of Inl x \<Rightarrow> Inl x | Inr ys \<Rightarrow> Inr (xs @ ys)))"

text \<open>\<^verbatim>\<open>name or "unnamed"\<close>\<close>

definition or_unnamed :: "json \<Rightarrow> json" where
  "or_unnamed name = (if truthy name then name else JStr ''unnamed'')"

definition ec2_instances_cmd :: "string list" where
  "ec2_instances_cmd =
     [''ec2'', ''describe-instances'',
      ''--filters'', ''Name=instance-state-name,Values=running'',
      ''--query'',
      ''Reservations[*].Instances[*].[InstanceId,Tags[?Key==`Name`].Value|[0],InstanceType]'',
      ''--output'', ''json'']"

definition discover_ec2 :: "env \<Rightarrow> unit prog" where
  "discover_ec2 e =
     thn (print ''EC2 Instances (running):'')
     (bnd (aws e ec2_instances_cmd 30)
        (\<lambda>result.
          if success result then
            try_except
              (bnd (loads e (stdout result)) (\<lambda>reservations.
               bnd (lift (py_iter reservations)) (\<lambda>rs.
               bnd (lift (flatten rs)) (\<lambda>instances.
                 if instances \<noteq> [] then
                   for_each instances (\<lambda>inst.
                     bnd (lift (py_unpack 3 inst)) (\<lambda>fields.
                     print_info (py_str e (fields ! 0) @ '' - '' @ py_str e (or_unnamed (fields ! 1))
                                 @ '' ('' @ py_str e (fields ! 2) @ '')'')))
                 else print_warning ''No running EC2 instances found''))))
              JSONDecodeError
              (print_error ''Failed to parse EC2 instances response'')
          else print_error ''Failed to describe EC2 instances''))"

definition lambda_functions_cmd :: "string list" where
  "lambda_functions_cmd =
     [''lambda'', ''list-functions'',
      ''--query'', ''Functions[*].[FunctionName,Runtime]'',
      ''--output'', ''json'']"

definition discover_lambda :: "env \<Rightarrow> unit prog" where
  "discover_lambda e =
     thn (print ''Lambda Functions:'')
     (bnd (aws e lambda_functions_cmd 30)
        (\<lambda>result.
          if success result then
            try_except
              (bnd (loads e (stdout result)) (\<lambda>functions.
                 if truthy functions then
                   bnd (lift (py_slice10 functions)) (\<lambda>first10.
                   bnd (lift (py_iter first10)) (\<lambda>items.
                   thn (for_each items (\<lambda>func.
                          bnd (lift (py_unpack 2 func)) (\<lambda>fields.
                          print_info (py_str e (fields ! 0) @ '' ('' @ py_str e (fields ! 1) @ '')''))))
                   (bnd (lift (py_len functions)) (\<lambda>n.
                    when_do (n > 10) (print (''    ... and '' @ str_nat (n - 10) @ '' more''))))))
                 else print_warning ''No Lambda functions found''))
              JSONDecodeError
              (print_error ''Failed to parse Lambda functions response'')
          else print_error ''Failed to list Lambda functions''))"

definition load_balancers_cmd :: "string list" where
  "load_balancers_cmd =
     [''elbv2'', ''describe-load-balancers'',
      ''--query'', ''LoadBalancers[*].[LoadBalancerName,Type,State.Code]'',
      ''--output'', ''json'']"

definition discover_elbv2 :: "env \<Rightarrow> unit prog" where
  "discover_elbv2 e =
     thn (print ''Load Balancers:'')
     (bnd (aws e load_balancers_cmd 30)
        (\<lambda>result.
          if success result then
            try_except
              (bnd (loads e (stdout result)) (\<lambda>lbs.
                 if truthy lbs then
                   bnd (lift (py_iter lbs)) (\<lambda>items.
                   for_each items (\<lambda>lb.
                     bnd (lift (py_unpack 3 lb)) (\<lambda>fields.
                     print_info (py_str e (fields ! 0) @ '' ('' @ py_str e (fields ! 1) @ '') - ''
                                 @ py_str e (fields ! 2)))))
                 else print_warning ''No load balancers found''))
              JSONDecodeError
              (print_error ''Failed to parse load balancers response'')
          else print_error ''Failed to describe load balancers''))"

definition rds_instances_cmd :: "string list" where
  "rds_instances_cmd =
     [''rds'', ''describe-db-instances'',
      ''--query'', ''DBInstances[*].[DBInstanceIdentifier,Engine,DBInstanceStatus]'',
      ''--output'', ''json'']"

definition discover_rds :: "env \<Rightarrow> unit prog" where
  "discover_rds e =
     thn (print ''RDS Instances:'')
     (bnd (aws e rds_instances_cmd 30)
        (\<lambda>result.
          if success result then
            try_except
              (bnd (loads e (stdout result)) (\<lambda>dbs.
                 if truthy dbs then
                   bnd (lift (py_iter dbs)) (\<lambda>items.
                   for_each items (\<lambda>db.
                     bnd (lift (py_unpack 3 db)) (\<lambda>fields.
                     print_info (py_str e (fields ! 0) @ '' ('' @ py_str e (fields ! 1) @ '') - ''
                                 @ py_str e (fields ! 2)))))
                 else print_warning ''No RDS instances found''))
              JSONDecodeError
              (print_error ''Failed to parse RDS instances response'')
          else print_error ''Failed to describe RDS instances''))"

definition discover_services :: "env \<Rightarrow> unit prog" where
  "discover_services e =
     block
       [print_header ''Service Discovery'',
        discover_ecs e,
        print [],
        discover_ec2 e,
        print [],
        discover_lambda e,
        print [],
        discover_elbv2 e,
        print [],
        discover_rds e]"

text \<open>The bodies of the two loops of \<^verbatim>\<open>show_config\<close> over the lines of a file.\<close>

definition config_line :: "string \<Rightarrow> unit prog" where
  "config_line raw =
     (let line = strip raw in
      when_do (startswith line ''['')
        (print (''  - '' @
           str_replace '']'' [] (str_replace ''['' [] (str_replace ''[profile '' [] line)))))"

definition credentials_line :: "string \<Rightarrow> unit prog" where
  "credentials_line raw =
     (let line = strip raw in
      when_do (startswith line ''['')
        (print (''  - '' @ str_replace '']'' [] (str_replace ''['' [] line))))"

definition env_vars :: "env \<Rightarrow> (string \<times> string option) list" where
  "env_vars e =
     [(''AWS_PROFILE'', environ e ''AWS_PROFILE''),
      (''AWS_DEFAULT_REGION'', environ e ''AWS_DEFAULT_REGION''),
      (''AWS_ACCESS_KEY_ID'',
         if truthy_str (environ e ''AWS_ACCESS_KEY_ID'') then Some ''***'' else None),
      (''AWS_SECRET_ACCESS_KEY'',
         if truthy_str (environ e ''AWS_SECRET_ACCESS_KEY'') then Some ''***'' else None)]"

definition show_config :: "env \<Rightarrow> unit prog" where
  "show_config e =
     block
       [print_header ''AWS Configuration'',
        print ''Configuration files:'',
        (case config_file e of
           Some f \<Rightarrow>
             block [print_success ''~/.aws/config exists'',
                    print ''  Profiles:'',
                    for_each f config_line]
         | None \<Rightarrow> print_warning ''~/.aws/config not found''),
        print [],
        (case credentials_file e of
           Some f \<Rightarrow>
             block [print_success ''~/.aws/credentials exists'',
                    print ''  Profiles:'',
                    for_each f credentials_line]
         | None \<Rightarrow> print_warning ''~/.aws/credentials not found''),
        print [],
        print ''Environment variables:'',
        for_each (env_vars e) (\<lambda>vv.
          if truthy_str (snd vv)
          then print_info (fst vv @ ''='' @ (case snd vv of Some v \<Rightarrow> v | None \<Rightarrow> []))
          else print_warning (fst vv @ '' not set''))]"

text \<open>The sub-command, as \<^verbatim>\<open>argparse\<close> hands it over (\<^verbatim>\<open>choices\<close> admits nothing
  else; the default is \<open>All\<close>).\<close>

datatype check_command = All | Identity | Permissions | Services | Config

definition check_main :: "env \<Rightarrow> check_command \<Rightarrow> int prog" where
  "check_main e command =
     (case command of
        All \<Rightarrow>
          bnd (check_cli_installed e) (\<lambda>installed.
          if \<not> installed then ret 1 else
          bnd (check_identity e) (\<lambda>identified.
          if \<not> identified then ret 1 else
          thn (show_config e)
          (thn (check_permissions e)
          (thn (discover_services e)
          (ret 0)))))
      | Identity \<Rightarrow>
          bnd (check_cli_installed e) (\<lambda>installed.
          if \<not> installed then ret 1 else
          bnd (check_identity e) (\<lambda>identified.
          if \<not> identified then ret 1 else
          ret 0))
      | Permissions \<Rightarrow>
          bnd (check_cli_installed e) (\<lambda>installed.
          if \<not> installed then ret 1 else
          bnd (check_identity e) (\<lambda>identified.
          if \<not> identified then ret 1 else
          bnd (check_permissions e) (\<lambda>permitted.
          if \<not> permitted then ret 1 else
          ret 0)))
      | Services \<Rightarrow>
          bnd (check_cli_installed e) (\<lambda>installed.
          if \<not> installed then ret 1 else
          bnd (check_identity e) (\<lambda>identified.
          if \<not> identified then ret 1 else
          thn (discover_services e)
          (ret 0)))
      | Config \<Rightarrow>
          bnd (check_cli_installed e) (\<lambda>installed.
          if \<not> installed then ret 1 else
          thn (show_config e)
          (ret 0)))"

section \<open>The metrics tool (\<^verbatim>\<open>aws_metrics.py\<close>)\<close>

text \<open>
  Instants are integers: microseconds since 0001-01-01T00:00:00 UTC, the resolution of
  \<^verbatim>\<open>datetime\<close>. \<^verbatim>\<open>datetime\<close> holds the years 1 to 9999 (3652059 days) and
  \<^verbatim>\<open>timedelta\<close> at most 999999999 days either way; outside, both raise
  \<^verbatim>\<open>OverflowError\<close>.
\<close>

definition datetime_max :: int where
  "datetime_max = 3652059 * 86400 * 1000000 - 1"

text \<open>\<^verbatim>\<open>timedelta(hours=hours)\<close>, in microseconds.\<close>

definition timedelta_hours :: "int \<Rightarrow> exn + int" where
  "timedelta_hours hours =
     (if \<bar>hours div 24\<bar> > 999999999 then Inl OverflowError
      else Inr (hours * 3600 * 1000000))"

text \<open>\<^verbatim>\<open>t - delta\<close> for a \<^verbatim>\<open>datetime\<close> and a \<^verbatim>\<open>timedelta\<close>.\<close>

definition datetime_sub :: "int \<Rightarrow> int \<Rightarrow> exn + int" where
  "datetime_sub t delta =
     (if 0 \<le> t - delta \<and> t - delta \<le> datetime_max then Inr (t - delta)
      else Inl OverflowError)"

text \<open>The first two lines of \<^verbatim>\<open>get_time_range\<close>: the pair \<open>(start_time, end_time)\<close>
  for the clock reading \<open>t\<close>.\<close>

definition time_window :: "int \<Rightarrow> int \<Rightarrow> exn + (int \<times> int)" where
  "time_window t hours =
     (case timedelta_hours hours of
        Inl x \<Rightarrow> Inl x
      | Inr delta \<Rightarrow>
          (case datetime_sub t delta of
             Inl x \<Rightarrow> Inl x
           | Inr start_time \<Rightarrow> Inr (start_time, t)))"

text \<open>The format \<^verbatim>\<open>%Y-%m-%dT%H:%M:%SZ\<close> names an instant to the whole second.\<close>

definition whole_seconds :: "int \<Rightarrow> int" where
  "whole_seconds t = t div 1000000"

definition get_time_range :: "env \<Rightarrow> int \<Rightarrow> (string \<times> string) prog" where
  "get_time_range e hours =
     bnd (lift (time_window (now e) hours)) (\<lambda>se.
     ret (strftime e (fst se), strftime e (snd se)))"

definition namespaces :: "(string \<times> string) list" where
  "namespaces =
     [(''AWS/EC2'', ''EC2 instances''),
      (''AWS/ECS'', ''ECS services''),
      (''AWS/Lambda'', ''Lambda functions''),
      (''AWS/RDS'', ''RDS databases''),
      (''AWS/ELB'', ''Classic Load Balancers''),
      (''AWS/ApplicationELB'', ''Application Load Balancers''),
      (''AWS/NetworkELB'', ''Network Load Balancers''),
      (''AWS/S3'', ''S3 buckets''),
      (''AWS/SQS'', ''SQS queues''),
      (''AWS/SNS'', ''SNS topics''),
      (''AWS/DynamoDB'', ''DynamoDB tables'')]"

text \<open>The value of an optional string argument where the code has already tested it.\<close>

fun str_of :: "string option \<Rightarrow> string" where
  "str_of (Some s) = s"
| "str_of None = []"

definition list_metrics :: "env \<Rightarrow> string option \<Rightarrow> int prog" where
  "list_metrics e namespace =
     thn (print_header ''CloudWatch Metrics'')
     (if \<not> truthy_str namespace then
        thn (block
          [print ''Common namespaces:'',
           for_each namespaces (\<lambda>nd. print (''  '' @ ljust 25 (fst nd) @ '' - '' @ snd nd)),
           print [],
           print ''Usage: aws_metrics.py list <namespace>''])
        (ret 0)
      else
        thn (block
          [print_info (''Listing metrics in namespace: '' @ str_of namespace),
           print []])
        (bnd (aws e [''cloudwatch'', ''list-metrics'',
                     ''--namespace'', str_of namespace,
                     ''--query'', ''Metrics[*].[MetricName,Dimensions[0].Name,Dimensions[0].Value]'',
                     ''--output'', ''table''] 60) (\<lambda>result.
           if success result then thn (print (stdout result)) (ret 0)
           else thn (print_error (''Failed to list metrics: '' @ stderr result)) (ret 1))))"

text \<open>The list \<^verbatim>\<open>cmd\<close> that \<^verbatim>\<open>get_metric\<close> builds before it looks at the dimension.\<close>

definition metric_cmd :: "string \<Rightarrow> string \<Rightarrow> string \<Rightarrow> string \<Rightarrow> int \<Rightarrow> string list" where
  "metric_cmd namespace metric_name start_time end_time period =
     [''cloudwatch'', ''get-metric-statistics'',
      ''--namespace'', namespace,
      ''--metric-name'', metric_name,
      ''--start-time'', start_time,
      ''--end-time'', end_time,
      ''--period'', str_int period,
      ''--statistics'', ''Average'', ''Minimum'', ''Maximum'',
      ''--query'', ''sort_by(Datapoints, &Timestamp)[*].[Timestamp,Average,Minimum,Maximum]'',
      ''--output'', ''table'']"

definition get_metric ::
  "env \<Rightarrow> string \<Rightarrow> string \<Rightarrow> string option \<Rightarrow> string option \<Rightarrow> int \<Rightarrow> int \<Rightarrow> int prog" where
  "get_metric e metric_name namespace dimension_name dimension_value hours period =
     thn (print_header (''CloudWatch Metric: '' @ metric_name))
     (bnd (get_time_range e hours) (\<lambda>se.
      thn (block
        [print_info (''Namespace: '' @ namespace),
         print_info (''Period: '' @ str_int period @ ''s''),
         print_info (''Time range: '' @ fst se @ '' to '' @ snd se)])
      (bnd (if truthy_str dimension_name \<and> truthy_str dimension_value then
              thn (print_info (''Dimension: '' @ str_of dimension_name @ ''='' @ str_of dimension_value))
              (ret (metric_cmd namespace metric_name (fst se) (snd se) period
                    @ [''--dimensions'',
                       ''Name='' @ str_of dimension_name @ '',Value='' @ str_of dimension_value]))
            else ret (metric_cmd namespace metric_name (fst se) (snd se) period)) (\<lambda>cmd.
       thn (print [])
       (bnd (aws e cmd 60) (\<lambda>result.
          if success result then thn (print (stdout result)) (ret 0)
          else thn (print_error (''Failed to get metric: '' @ stderr result)) (ret 1)))))))"

definition RED :: string where
  "RED = CHR 0x1B # ''[0;31m''"

definition NC :: string where
  "NC = CHR 0x1B # ''[0m''"

text \<open>The loop of \<^verbatim>\<open>list_alarms\<close> that fills the dict \<^verbatim>\<open>counts\<close>.\<close>

fun alarm_counts :: "env \<Rightarrow> string list \<Rightarrow> (string \<times> string) list \<Rightarrow> (string \<times> string) list prog" where
  "alarm_counts e [] counts = ret counts"
| "alarm_counts e (s # ss) counts =
     bnd (aws e [''cloudwatch'', ''describe-alarms'',
                 ''--state-value'', s,
                 ''--query'', ''length(MetricAlarms)'',
                 ''--output'', ''text''] 60) (\<lambda>count_result.
     alarm_counts e ss
       (counts @ [(s, if success count_result then strip (stdout count_result) else ''?'')]))"

text \<open>\<^verbatim>\<open>counts.get(key, default)\<close>\<close>

definition counts_get :: "(string \<times> string) list \<Rightarrow> string \<Rightarrow> string \<Rightarrow> string" where
  "counts_get counts k d = (case map_of counts k of Some v \<Rightarrow> v | None \<Rightarrow> d)"

definition list_alarms :: "env \<Rightarrow> string option \<Rightarrow> int prog" where
  "list_alarms e state =
     thn (print_header ''CloudWatch Alarms'')
     (thn (when_do (truthy_str state) (print_info (''Filtering by state: '' @ str_of state)))
     (thn (print [])
     (bnd (aws e ([''cloudwatch'', ''describe-alarms'',
                   ''--query'', ''MetricAlarms[*].[AlarmName,StateValue,MetricName,Namespace]'',
                   ''--output'', ''table'']
                  @ (if truthy_str state then [''--state-value'', str_of state] else [])) 60)
        (\<lambda>result.
          if success result then
            thn (block [print (stdout result), print []])
            (bnd (alarm_counts e [''ALARM'', ''OK'', ''INSUFFICIENT_DATA''] []) (\<lambda>counts.
             thn (block
               [print ''Summary:'',
                (if counts_get counts ''ALARM'' ''0'' \<noteq> ''0''
                 then print (''  '' @ RED @ ''ALARM: '' @ counts_get counts ''ALARM'' ''0'' @ NC)
                 else print ''  ALARM: 0''),
                print (''  OK: '' @ counts_get counts ''OK'' ''?''),
                print (''  INSUFFICIENT_DATA: '' @ counts_get counts ''INSUFFICIENT_DATA'' ''?'')])
             (ret 0)))
          else
            thn (print_error (''Failed to list alarms: '' @ stderr result)) (ret 1)))))"

definition get_ecs_metrics :: "env \<Rightarrow> string \<Rightarrow> string option \<Rightarrow> int \<Rightarrow> int prog" where
  "get_ecs_metrics e cluster service hours =
     thn (print_header (''ECS Metrics: '' @ cluster))
     (bnd (get_time_range e hours) (\<lambda>se.
      if \<not> truthy_str service then
        thn (print ''Services in cluster:'')
        (bnd (aws e (ecs_services_cmd cluster) 60) (\<lambda>result.
         thn (if success result then
                try_except
                  (bnd (loads e (stdout result)) (\<lambda>services.
                   bnd (lift (py_iter services)) (\<lambda>items.
                   for_each items (\<lambda>svc_arn.
                     bnd (lift (py_split_last svc_arn)) (\<lambda>svc_name.
                     print (''  - '' @ svc_name))))))
                  JSONDecodeError
                  (print_error ''Failed to parse services response'')
              else print_error (''Failed to list services: '' @ stderr result))
         (thn (block
            [print [],
             print (''Usage: aws_metrics.py ecs '' @ cluster @ '' <service-name>'')])
         (ret 0))))
      else
        thn (block
          [print_info (''Service: '' @ str_of service),
           print [],
           for_each [(''CPUUtilization'', ''CPU Utilization''),
                     (''MemoryUtilization'', ''Memory Utilization'')] (\<lambda>ml.
             thn (print (snd ml @ '':''))
             (bnd (aws e [''cloudwatch'', ''get-metric-statistics'',
                          ''--namespace'', ''AWS/ECS'',
                          ''--metric-name'', fst ml,
                          ''--dimensions'',
                          ''Name=ClusterName,Value='' @ cluster,
                          ''Name=ServiceName,Value='' @ str_of service,
                          ''--start-time'', fst se,
                          ''--end-time'', snd se,
                          ''--period'', ''300'',
                          ''--statistics'', ''Average'',
                          ''--query'', ''sort_by(Datapoints, &Timestamp)[-5:].[Timestamp,Average]'',
                          ''--output'', ''table''] 60) (\<lambda>result.
              thn (if success result then print (stdout result)
                   else print_warning (''No data for '' @ fst ml))
              (print []))))])
        (ret 0)))"

definition get_ec2_metrics :: "env \<Rightarrow> string \<Rightarrow> int \<Rightarrow> int prog" where
  "get_ec2_metrics e instance_id hours =
     thn (print_header (''EC2 Metrics: '' @ instance_id))
     (bnd (get_time_range e hours) (\<lambda>se.
      thn (for_each [(''CPUUtilization'', ''CPU Utilization'', ''Average''),
                     (''NetworkIn'', ''Network In (bytes)'', ''Sum''),
                     (''NetworkOut'', ''Network Out (bytes)'', ''Sum'')] (\<lambda>mls.
             thn (print (fst (snd mls) @ '':''))
             (bnd (aws e [''cloudwatch'', ''get-metric-statistics'',
                          ''--namespace'', ''AWS/EC2'',
                          ''--metric-name'', fst mls,
                          ''--dimensions'', ''Name=InstanceId,Value='' @ instance_id,
                          ''--start-time'', fst se,
                          ''--end-time'', snd se,
                          ''--period'', ''300'',
                          ''--statistics'', snd (snd mls),
                          ''--query'',
                          ''sort_by(Datapoints, &Timestamp)[-5:].[Timestamp,'' @ snd (snd mls) @ '']'',
                          ''--output'', ''table''] 60) (\<lambda>result.
              thn (if success result then print (stdout result)
                   else print_warning (''No data for '' @ fst mls))
              (print [])))))
      (ret 0)))"

definition get_rds_metrics :: "env \<Rightarrow> string \<Rightarrow> int \<Rightarrow> int prog" where
  "get_rds_metrics e db_identifier hours =
     thn (print_header (''RDS Metrics: '' @ db_identifier))
     (bnd (get_time_range e hours) (\<lambda>se.
      thn (for_each [(''CPUUtilization'', ''CPU Utilization''),
                     (''DatabaseConnections'', ''Database Connections''),
                     (''FreeStorageSpace'', ''Free Storage Space (bytes)'')] (\<lambda>ml.
             thn (print (snd ml @ '':''))
             (bnd (aws e [''cloudwatch'', ''get-metric-statistics'',
                          ''--namespace'', ''AWS/RDS'',
                          ''--metric-name'', fst ml,
                          ''--dimensions'', ''Name=DBInstanceIdentifier,Value='' @ db_identifier,
                          ''--start-time'', fst se,
                          ''--end-time'', snd se,
                          ''--period'', ''300'',
                          ''--statistics'', ''Average'',
                          ''--query'', ''sort_by(Datapoints, &Timestamp)[-5:].[Timestamp,Average]'',
                          ''--output'', ''table''] 60) (\<lambda>result.
              thn (if success result then print (stdout result)
                   else print_warning (''No data for '' @ fst ml))
              (print [])))))
      (ret 0)))"

text \<open>One element of the list \<^verbatim>\<open>queries\<close> of \<^verbatim>\<open>export_metrics\<close>.\<close>

definition metric_query :: "string \<Rightarrow> string \<Rightarrow> string \<Rightarrow> string \<Rightarrow> json" where
  "metric_query ident namespace metric_name stat =
     JObj [(''Id'', JStr ident),
           (''MetricStat'',
              JObj [(''Metric'', JObj [(''Namespace'', JStr namespace),
                                       (''MetricName'', JStr metric_name)]),
                    (''Period'', JInt 3600),
                    (''Stat'', JStr stat)]),
           (''ReturnData'', JBool True)]"

definition queries :: json where
  "queries =
     JArr [metric_query ''ec2_cpu'' ''AWS/EC2'' ''CPUUtilization'' ''Average'',
           metric_query ''ecs_cpu'' ''AWS/ECS'' ''CPUUtilization'' ''Average'',
           metric_query ''rds_cpu'' ''AWS/RDS'' ''CPUUtilization'' ''Average'',
           metric_query ''lambda_invocations'' ''AWS/Lambda'' ''Invocations'' ''Sum'']"

text \<open>The file store. \<^verbatim>\<open>open(path, "w")\<close> followed by one \<^verbatim>\<open>write\<close> (also the
  creation and filling of the temporary file); \<^verbatim>\<open>Path(path).unlink(missing_ok=True)\<close>;
  \<^verbatim>\<open>Path(path).stat().st_size\<close>, the size in bytes.\<close>

definition write_file :: "env \<Rightarrow> string \<Rightarrow> string \<Rightarrow> unit prog" where
  "write_file e path content =
     (\<lambda>w. case file_write e path content of
            Written \<Rightarrow> (Inr (), w\<lparr>files := (files w)(path \<mapsto> content)\<rparr>)
          | OpenRaised \<Rightarrow> (Inl OSError, w)
          | WriteRaised part \<Rightarrow> (Inl OSError, w\<lparr>files := (files w)(path \<mapsto> part)\<rparr>))"

definition unlink :: "env \<Rightarrow> string \<Rightarrow> unit prog" where
  "unlink e path =
     (\<lambda>w. if removable e path then (Inr (), w\<lparr>files := (files w)(path := None)\<rparr>)
          else (Inl OSError, w))"

definition st_size :: "env \<Rightarrow> string \<Rightarrow> nat prog" where
  "st_size e path =
     (\<lambda>w. (case files w path of
              Some content \<Rightarrow> Inr (byte_length e content)
            | None \<Rightarrow> Inl FileNotFoundError, w))"

definition export_cmd :: "string \<Rightarrow> string \<Rightarrow> string \<Rightarrow> string list" where
  "export_cmd queries_file start_time end_time =
     [''cloudwatch'', ''get-metric-data'',
      ''--metric-data-queries'', ''file://'' @ queries_file,
      ''--start-time'', start_time,
      ''--end-time'', end_time,
      ''--output'', ''json'']"

definition export_metrics :: "env \<Rightarrow> string \<Rightarrow> int \<Rightarrow> int prog" where
  "export_metrics e output_file hours =
     thn (print_header ''Exporting Metrics'')
     (bnd (get_time_range e hours) (\<lambda>se.
      thn (block
        [print_info (''Time range: '' @ fst se @ '' to '' @ snd se),
         print_info (''Output file: '' @ output_file),
         write_file e (tmp_name e) (json_dump e queries)])
      (try_finally
        (bnd (aws e (export_cmd (tmp_name e) (fst se) (snd se)) 120) (\<lambda>result.
           if success result then
             thn (write_file e output_file (stdout result))
             (thn (print_success (''Metrics exported to '' @ output_file))
             (bnd (st_size e output_file) (\<lambda>file_size.
              thn (print_info (''File size: '' @ str_nat file_size @ '' bytes''))
              (ret 0))))
           else
             thn (print_error (''Failed to export metrics: '' @ stderr result))
             (ret 1)))
        (unlink e (tmp_name e)))))"

text \<open>The parsed command line of the metrics tool (\<^verbatim>\<open>args\<close>), one constructor for each
  sub-parser with its arguments in the order of their declaration; \<open>NoCommand\<close> when no
  sub-command was given.\<close>

datatype metrics_command =
    NoCommand
  | List "string option"
  | Get string string "string option" int int
  | Alarms "string option"
  | Ecs string "string option" int
  | Ec2 string int
  | Rds string int
  | Export string int

text \<open>The lines of \<^verbatim>\<open>main\<close> that turn \<^verbatim>\<open>--dimension\<close> into \<open>(dim_name, dim_value)\<close>.\<close>

definition parse_dimension :: "string option \<Rightarrow> string option \<times> string option" where
  "parse_dimension dimension =
     (if truthy_str dimension then
        (let parts = str_split1 CHR ''='' (str_of dimension) in
         if length parts = 2 then (Some (parts ! 0), Some (parts ! 1)) else (None, None))
      else (None, None))"

definition metrics_main :: "env \<Rightarrow> metrics_command \<Rightarrow> int prog" where
  "metrics_main e args =
     (case args of
        NoCommand \<Rightarrow> thn (emit Help) (ret 0)
      | List namespace \<Rightarrow> list_metrics e namespace
      | Get metric namespace dimension hours period \<Rightarrow>
          get_metric e metric namespace
            (fst (parse_dimension dimension)) (snd (parse_dimension dimension)) hours period
      | Alarms state \<Rightarrow> list_alarms e state
      | Ecs cluster service hours \<Rightarrow> get_ecs_metrics e cluster service hours
      | Ec2 instance_id hours \<Rightarrow> get_ec2_metrics e instance_id hours
      | Rds db_identifier hours \<Rightarrow> get_rds_metrics e db_identifier hours
      | Export output_file hours \<Rightarrow> export_metrics e output_file hours)"

text \<open>
  \<open>check_main\<close> and \<open>metrics_main\<close> are \<^verbatim>\<open>main\<close> from the line after
  \<^verbatim>\<open>args = parser.parse_args()\<close> on. The parser itself is the library's: it returns the
  namespace \<^verbatim>\<open>args\<close>; or prints the help and raises \<^verbatim>\<open>SystemExit(0)\<close> (\<^verbatim>\<open>-h\<close>); or
  reports a rejected command line (a sub-command outside the choices, an \<^verbatim>\<open>--hours\<close>
  that is no integer, a missing argument, ...) on standard error and raises
  \<^verbatim>\<open>SystemExit(2)\<close>. Nothing else in the two scripts raises \<^verbatim>\<open>SystemExit\<close>.
\<close>

datatype 'a parse_outcome =
    Namespace 'a
  | HelpExit
  | ErrorExit

text \<open>\<^verbatim>\<open>sys.exit(main())\<close>, after \<^verbatim>\<open>main\<close> is past the parser: the exit status of the
  process is the value \<^verbatim>\<open>main\<close> returns; an exception that escapes \<^verbatim>\<open>main\<close> ends
  the interpreter with status 1. (Interrupts from outside the process are not part of
  the model.)\<close>

fun exit_status :: "exn + int \<Rightarrow> int" where
  "exit_status (Inr code) = code"
| "exit_status (Inl x) = 1"



definition fresh :: world where
  "fresh = \<lparr>calls = [], out = [], files = Map.empty\<rparr>"

section \<open>Vocabulary of the statements\<close>

text \<open>
  \<open>succeeds e n args timeout\<close>: the \<open>n\<close>-th invocation of the run, made as
  \<^verbatim>\<open>aws args\<close>, gives a result whose \<open>success\<close> flag is set.
  \<open>bad_json e n args timeout\<close>: it does, and \<^verbatim>\<open>json.loads\<close> rejects its standard
  output with \<^verbatim>\<open>JSONDecodeError\<close>. \<open>loads_raises e n args timeout x\<close>: it does, and
  \<^verbatim>\<open>json.loads\<close> raises the exception \<open>x\<close> on its standard output.
  \<open>no_stray e\<close>: no invocation raises anything but a timeout or a missing binary.
\<close>

definition succeeds :: "env \<Rightarrow> nat \<Rightarrow> string list \<Rightarrow> int \<Rightarrow> bool" where
  "succeeds e n args timeout =
     (case command_result (subprocess_run e n (''aws'' # args) timeout) of
        Inr r \<Rightarrow> success r
      | Inl x \<Rightarrow> False)"

definition no_stray :: "env \<Rightarrow> bool" where
  "no_stray e = (\<forall>n args t. \<exists>r. command_result (subprocess_run e n args t) = Inr r)"

definition bad_json :: "env \<Rightarrow> nat \<Rightarrow> string list \<Rightarrow> int \<Rightarrow> bool" where
  "bad_json e n args timeout =
     (case command_result (subprocess_run e n (''aws'' # args) timeout) of
        Inr r \<Rightarrow> success r \<and> json_loads e (stdout r) = Raised JSONDecodeError
      | Inl x \<Rightarrow> False)"


text \<open>
  \<open>installed e n\<close>: the binary is on the path and \<^verbatim>\<open>aws --version\<close>, made as the
  \<open>n\<close>-th invocation, succeeds. \<open>identified e n\<close>: the identity query, made as the
  \<open>n\<close>-th invocation, succeeds and \<^verbatim>\<open>json.loads\<close> does not reject its output. \<open>has_required_query args\<close>: the
  sub-command of the metrics tool returns 1 when its query fails.
  \<open>first_query_failed e w w'\<close>: the run from \<open>w\<close> to \<open>w'\<close> invoked the external CLI, and
  its first invocation gave a result without the \<open>success\<close> flag.
\<close>

definition installed :: "env \<Rightarrow> nat \<Rightarrow> bool" where
  "installed e n = (truthy_str (which_aws e) \<and> succeeds e n [''--version''] 30)"

definition identified :: "env \<Rightarrow> nat \<Rightarrow> bool" where
  "identified e n = (succeeds e n identity_cmd 30 \<and> \<not> bad_json e n identity_cmd 30)"




section \<open>Sample environments\<close>

text \<open>Concrete environments on which the statements below are instantiated.\<close>

definition no_binary_env :: env where
  "no_binary_env =
     \<lparr>subprocess_run = (\<lambda>n args t. RaisedFileNotFoundError),
      which_aws = None,
      environ = Map.empty,
      config_file = None,
      credentials_file = None,
      json_loads = (\<lambda>s. Raised JSONDecodeError),
      py_str = (\<lambda>v. []),
      json_dump = (\<lambda>v. []),
      now = 0,
      strftime = (\<lambda>t. []),
      tmp_name = ''/tmp/tmpq.json'',
      file_write = (\<lambda>path content. Written),
      removable = (\<lambda>path. True),
      byte_length = length\<rparr>"

definition ok_env :: env where
  "ok_env =
     \<lparr>subprocess_run = (\<lambda>n args t. Completed 0 ''{}'' []),
      which_aws = Some ''/usr/local/bin/aws'',
      environ = Map.empty,
      config_file = Some [''[default]'' @ [CHR 0x0A], ''region = eu-west-1'' @ [CHR 0x0A],
                          ''[profile dev]'' @ [CHR 0x0A]],
      credentials_file = Some [''[default]'' @ [CHR 0x0A], ''aws_access_key_id = A'' @ [CHR 0x0A]],
      json_loads = (\<lambda>s. if s = ''{}'' then Decoded (JObj []) else Raised JSONDecodeError),
      py_str = (\<lambda>v. case v of JStr s \<Rightarrow> s | _ \<Rightarrow> ''?''),
      json_dump = (\<lambda>v. ''[]''),
      now = 63000000000000000,
      strftime = (\<lambda>t. str_int (whole_seconds t)),
      tmp_name = ''/tmp/tmpq.json'',
      file_write = (\<lambda>path content. Written),
      removable = (\<lambda>path. True),
      byte_length = length\<rparr>"

definition denied_env :: env where
  "denied_env = ok_env\<lparr>subprocess_run := (\<lambda>n args t. Completed 255 [] ''AccessDenied'')\<rparr>"


definition probe_denied_env :: env where
  "probe_denied_env =
     ok_env\<lparr>subprocess_run :=
       (\<lambda>n args t. if n = 5 then Completed 255 [] ''AccessDenied'' else Completed 0 ''{}'' [])\<rparr>"

text \<open>An output path in a directory that does not exist: \<^verbatim>\<open>open\<close> raises
  \<^verbatim>\<open>FileNotFoundError\<close>, an \<^verbatim>\<open>OSError\<close>.\<close>

definition unwritable_env :: env where
  "unwritable_env =
     ok_env\<lparr>file_write :=
       (\<lambda>path content. if path = ''nodir/metrics.json'' then OpenRaised else Written)\<rparr>"



section \<open>Properties of the subprocess wrapper\<close>

lemmas prog_defs = ret_def raise_exn_def lift_def bnd_def thn_def when_do_def try_except_def
  try_finally_def emit_def print_header_def print_success_def print_error_def print_warning_def
  print_info_def print_def aws_def run_aws_command_def loads_def

text \<open>
  Claim C1. Whatever the argument list, the timeout and the behaviour of the external
  process, a \<^verbatim>\<open>CommandResult\<close> returned by \<^verbatim>\<open>run_aws_command\<close> (the same function
  in both scripts) has \<open>success\<close> true exactly when \<open>returncode\<close> is 0; the synthetic
  results for a timeout and a missing binary carry \<open>success = False\<close> and
  \<open>returncode = -1\<close>.
\<close>

theorem run_aws_command_success_iff_returncode:
  "run_aws_command run args timeout w = (Inr r, w') \<Longrightarrow>
     (success r \<longleftrightarrow> returncode r = 0)
     \<and> (run (length (calls w)) (''aws'' # args) timeout \<in> {RaisedTimeoutExpired, RaisedFileNotFoundError}
          \<longrightarrow> \<not> success r \<and> returncode r = - 1)"
proof -
  assume a: "run_aws_command run args timeout w = (Inr r, w')"
  define p where "p = run (length (calls w)) (''aws'' # args) timeout"
  from a have "command_result p = Inr r"
    by (simp add: run_aws_command_def p_def)
  then have "(success r \<longleftrightarrow> returncode r = 0)
     \<and> (p \<in> {RaisedTimeoutExpired, RaisedFileNotFoundError} \<longrightarrow> \<not> success r \<and> returncode r = - 1)"
    by (cases p rule: command_result.cases) auto
  then show ?thesis by (simp add: p_def)
qed

theorem run_aws_command_success_iff_returncode_witness:
  "run_aws_command (\<lambda>n a t. RaisedTimeoutExpired) [''--version''] 30 fresh
     = (Inr \<lparr>success = False, stdout = [], stderr = ''Command timed out'', returncode = - 1\<rparr>,
        fresh\<lparr>calls := [([''aws'', ''--version''], 30)]\<rparr>)
   \<and> (success \<lparr>success = False, stdout = [], stderr = ''Command timed out'', returncode = - 1\<rparr>
        \<longleftrightarrow> returncode \<lparr>success = False, stdout = [], stderr = ''Command timed out'', returncode = - 1\<rparr> = 0)"
proof -
  have run: "run_aws_command (\<lambda>n a t. RaisedTimeoutExpired) [''--version''] 30 fresh
     = (Inr \<lparr>success = False, stdout = [], stderr = ''Command timed out'', returncode = - 1\<rparr>,
        fresh\<lparr>calls := [([''aws'', ''--version''], 30)]\<rparr>)"
    by (simp add: run_aws_command_def fresh_def)
  from run_aws_command_success_iff_returncode [OF run] run show ?thesis by simp
qed

text \<open>
  Claim C2. When \<^verbatim>\<open>subprocess.run\<close> raises \<^verbatim>\<open>TimeoutExpired\<close> or
  \<^verbatim>\<open>FileNotFoundError\<close>, \<^verbatim>\<open>run_aws_command\<close> does not let the exception escape: it
  returns a failure result with empty standard output, return code -1 and the fixed
  message \<^verbatim>\<open>Command timed out\<close>, respectively \<^verbatim>\<open>AWS CLI not found\<close>.
\<close>

theorem run_aws_command_synthetic_failure:
  "(run (length (calls w)) (''aws'' # args) timeout = RaisedTimeoutExpired \<longrightarrow>
      fst (run_aws_command run args timeout w)
        = Inr \<lparr>success = False, stdout = [], stderr = ''Command timed out'', returncode = - 1\<rparr>)
   \<and> (run (length (calls w)) (''aws'' # args) timeout = RaisedFileNotFoundError \<longrightarrow>
      fst (run_aws_command run args timeout w)
        = Inr \<lparr>success = False, stdout = [], stderr = ''AWS CLI not found'', returncode = - 1\<rparr>)"
  by (simp add: run_aws_command_def)

theorem run_aws_command_synthetic_failure_witness:
  "fst (run_aws_command (\<lambda>n a t. RaisedTimeoutExpired) [''sts'', ''get-caller-identity''] 30 fresh)
     = Inr \<lparr>success = False, stdout = [], stderr = ''Command timed out'', returncode = - 1\<rparr>
   \<and> fst (run_aws_command (\<lambda>n a t. RaisedFileNotFoundError) [''sts'', ''get-caller-identity''] 60 fresh)
     = Inr \<lparr>success = False, stdout = [], stderr = ''AWS CLI not found'', returncode = - 1\<rparr>"
  using run_aws_command_synthetic_failure
          [of "\<lambda>n a t. RaisedTimeoutExpired" fresh "[''sts'', ''get-caller-identity'']" 30]
        run_aws_command_synthetic_failure
          [of "\<lambda>n a t. RaisedFileNotFoundError" fresh "[''sts'', ''get-caller-identity'']" 60]
  by simp

section \<open>Stepping through computations\<close>

lemma bnd_Inr_iff:
  "bnd m f w = (Inr b, w') \<longleftrightarrow> (\<exists>a w1. m w = (Inr a, w1) \<and> f a w1 = (Inr b, w'))"
  by (auto simp: bnd_def split: prod.splits sum.splits)


lemma emit_eq: "emit l w = (r, w') \<longleftrightarrow> r = Inr () \<and> w' = w\<lparr>out := out w @ [l]\<rparr>"
  by (auto simp: emit_def)

lemma ret_eq: "ret x w = (r, w') \<longleftrightarrow> r = Inr x \<and> w' = w"
  by (auto simp: ret_def)

lemma aws_eq:
  "aws e args t w = (r, w') \<longleftrightarrow>
     command_result (subprocess_run e (length (calls w)) (''aws'' # args) t) = r
     \<and> w' = w\<lparr>calls := calls w @ [(''aws'' # args, t)]\<rparr>"
  by (auto simp: aws_def run_aws_command_def)

lemmas print_defs = print_header_def print_success_def print_error_def print_warning_def
  print_info_def print_def

section \<open>The check sequence without the binary\<close>

text \<open>
  Claim C5. When the check tool runs the \<open>All\<close> sequence and \<^verbatim>\<open>shutil.which("aws")\<close>
  finds no binary, the run ends at once with exit code 1: no subprocess is invoked, and
  nothing is printed after the installation section.
\<close>

theorem check_all_aborts_without_binary:
  "\<not> truthy_str (which_aws e) \<Longrightarrow>
     fst (check_main e All w) = Inr 1
     \<and> calls (snd (check_main e All w)) = calls w
     \<and> out (snd (check_main e All w)) =
         out w @ [Header ''AWS CLI Installation'',
                  Error ''AWS CLI not found in PATH'',
                  Plain (CHR 0x0A # ''Install with:''),
                  Plain ''  macOS:  brew install awscli'',
                  Plain (''  Linux:  curl '' @ [CHR 0x27]
                    @ ''https://awscli.amazonaws.com/awscli-exe-linux-x86_64.zip'' @ [CHR 0x27]
                    @ '' -o '' @ [CHR 0x27] @ ''awscliv2.zip'' @ [CHR 0x27])]"
  by (simp add: check_main_def check_cli_installed_def prog_defs)

theorem check_all_aborts_without_binary_witness:
  "\<not> truthy_str (which_aws no_binary_env)
   \<and> fst (check_main no_binary_env All fresh) = Inr 1
   \<and> calls (snd (check_main no_binary_env All fresh)) = []"
proof -
  have h: "\<not> truthy_str (which_aws no_binary_env)"
    by (simp add: no_binary_env_def)
  from check_all_aborts_without_binary [OF h, of fresh] h show ?thesis
    by (simp add: fresh_def)
qed

section \<open>The time window\<close>





section \<open>The dimension flag\<close>

lemma str_split1_first:
  "c \<notin> set n \<Longrightarrow> str_split1 c (n @ c # v) = [n, v]"
proof -
  assume "c \<notin> set n"
  then have all: "\<forall>x\<in>set n. x \<noteq> c" by auto
  then have "dropWhile (\<lambda>x. x \<noteq> c) (n @ c # v) = c # v"
    by (simp add: dropWhile_append3)
  moreover from all have "takeWhile (\<lambda>x. x \<noteq> c) (n @ c # v) = n"
    by (simp add: takeWhile_tail)
  ultimately show ?thesis by (simp add: str_split1_def)
qed

lemma str_split1_cases:
  "str_split1 c d = [d] \<and> c \<notin> set d
   \<or> (\<exists>n v. d = n @ c # v \<and> c \<notin> set n \<and> str_split1 c d = [n, v])"
proof (cases "c \<in> set d")
  case True
  then obtain n v where "d = n @ c # v" "c \<notin> set n"
    by (meson split_list_first)
  then show ?thesis using str_split1_first by blast
next
  case False
  then have dw: "dropWhile (\<lambda>x. x \<noteq> c) d = []" by auto
  have "str_split1 c d = [d]" unfolding str_split1_def dw by simp
  then show ?thesis using False by blast
qed

lemma parse_dimension_well_formed:
  "CHR ''='' \<notin> set n \<Longrightarrow>
     parse_dimension (Some (n @ CHR ''='' # v)) = (Some n, Some v)"
  by (simp add: parse_dimension_def str_split1_first)

lemma parse_dimension_cases:
  "parse_dimension flag = (None, None)
   \<or> (\<exists>n v. flag = Some (n @ CHR ''='' # v) \<and> CHR ''='' \<notin> set n
            \<and> parse_dimension flag = (Some n, Some v))"
proof (cases flag)
  case None
  then show ?thesis by (simp add: parse_dimension_def)
next
  case (Some d)
  from str_split1_cases [of "CHR ''=''" d] show ?thesis
  proof
    assume "str_split1 CHR ''='' d = [d] \<and> CHR ''='' \<notin> set d"
    then show ?thesis using Some by (simp add: parse_dimension_def)
  next
    assume "\<exists>n v. d = n @ CHR ''='' # v \<and> CHR ''='' \<notin> set n \<and> str_split1 CHR ''='' d = [n, v]"
    then show ?thesis using Some parse_dimension_well_formed by blast
  qed
qed

lemma get_metric_dimension_used:
  "n \<noteq> [] \<Longrightarrow> v \<noteq> [] \<Longrightarrow> fst (get_time_range e hours w) = Inr se \<Longrightarrow>
     calls (snd (get_metric e metric ns (Some n) (Some v) hours period w)) =
       calls w @ [(''aws'' # metric_cmd ns metric (fst se) (snd se) period
                    @ [''--dimensions'', ''Name='' @ n @ '',Value='' @ v], 60)]"
  by (cases "get_time_range e hours w")
     (auto simp: get_metric_def get_time_range_def prog_defs split: sum.splits prod.splits)

lemma get_metric_dimension_ignored:
  "\<not> (truthy_str dn \<and> truthy_str dv) \<Longrightarrow>
     get_metric e metric ns dn dv hours period = get_metric e metric ns None None hours period"
  by (cases "truthy_str dn"; cases "truthy_str dv") (simp_all add: get_metric_def)

lemma get_metric_no_dimension:
  "fst (get_time_range e hours w) = Inr se \<Longrightarrow>
     calls (snd (get_metric e metric ns None None hours period w)) =
       calls w @ [(''aws'' # metric_cmd ns metric (fst se) (snd se) period, 60)]"
  by (cases "get_time_range e hours w")
     (auto simp: get_metric_def get_time_range_def prog_defs split: sum.splits prod.splits)

text \<open>
  Claim C9. In the \<^verbatim>\<open>get\<close> command the value of \<^verbatim>\<open>--dimension\<close> reaches the external
  CLI only when it splits at its first \<^verbatim>\<open>=\<close> into a non-empty name and a non-empty
  value: then \<^verbatim>\<open>--dimensions Name=<name>,Value=<value>\<close> is appended to the command.
  With any other value the run is the run without the flag (same invocation, same
  output), and no \<^verbatim>\<open>--dimensions\<close> argument is appended.
\<close>

theorem dimension_flag_used_iff_well_formed:
  "fst (get_time_range e hours w) = Inr se \<Longrightarrow>
     (\<forall>name v. flag = Some (name @ ''='' @ v) \<and> CHR ''='' \<notin> set name
                \<and> name \<noteq> [] \<and> v \<noteq> [] \<longrightarrow>
        calls (snd (metrics_main e (Get metric ns flag hours period) w)) =
          calls w @ [(''aws'' # metric_cmd ns metric (fst se) (snd se) period
                       @ [''--dimensions'', ''Name='' @ name @ '',Value='' @ v], 60)])
     \<and> ((\<nexists>name v. flag = Some (name @ ''='' @ v) \<and> CHR ''='' \<notin> set name
                \<and> name \<noteq> [] \<and> v \<noteq> []) \<longrightarrow>
        metrics_main e (Get metric ns flag hours period)
          = metrics_main e (Get metric ns None hours period)
        \<and> calls (snd (metrics_main e (Get metric ns flag hours period) w)) =
          calls w @ [(''aws'' # metric_cmd ns metric (fst se) (snd se) period, 60)])"
proof (intro conjI allI impI)
  fix name v
  assume se: "fst (get_time_range e hours w) = Inr se"
    and wf: "flag = Some (name @ ''='' @ v) \<and> CHR ''='' \<notin> set name \<and> name \<noteq> [] \<and> v \<noteq> []"
  then have "parse_dimension flag = (Some name, Some v)"
    using parse_dimension_well_formed [of name v] by simp
  then show "calls (snd (metrics_main e (Get metric ns flag hours period) w)) =
          calls w @ [(''aws'' # metric_cmd ns metric (fst se) (snd se) period
                       @ [''--dimensions'', ''Name='' @ name @ '',Value='' @ v], 60)]"
    using get_metric_dimension_used [of name v e hours w se metric ns period] wf se
    by (simp add: metrics_main_def)
next
  assume se: "fst (get_time_range e hours w) = Inr se"
    and nwf: "\<nexists>name v. flag = Some (name @ ''='' @ v) \<and> CHR ''='' \<notin> set name
                \<and> name \<noteq> [] \<and> v \<noteq> []"
  have none: "parse_dimension None = (None, None)" by (simp add: parse_dimension_def)
  from parse_dimension_cases [of flag]
  have ign: "\<not> (truthy_str (fst (parse_dimension flag))
                \<and> truthy_str (snd (parse_dimension flag)))"
  proof
    assume "parse_dimension flag = (None, None)"
    then show ?thesis by simp
  next
    assume "\<exists>n v. flag = Some (n @ CHR ''='' # v) \<and> CHR ''='' \<notin> set n
            \<and> parse_dimension flag = (Some n, Some v)"
    then obtain n v where d: "flag = Some (n @ CHR ''='' # v)" "CHR ''='' \<notin> set n"
      and p: "parse_dimension flag = (Some n, Some v)" by blast
    from nwf d have "n = [] \<or> v = []" by auto
    then show ?thesis using p by auto
  qed
  have eq: "metrics_main e (Get metric ns flag hours period)
          = metrics_main e (Get metric ns None hours period)"
    using get_metric_dimension_ignored [OF ign] by (simp add: metrics_main_def none)
  show "metrics_main e (Get metric ns flag hours period)
          = metrics_main e (Get metric ns None hours period)" by (rule eq)
  show "calls (snd (metrics_main e (Get metric ns flag hours period) w)) =
          calls w @ [(''aws'' # metric_cmd ns metric (fst se) (snd se) period, 60)]"
    unfolding eq using get_metric_no_dimension [OF se] by (simp add: metrics_main_def none)
qed

lemma split_first_unique:
  "(c::char) \<notin> set n \<Longrightarrow> c \<notin> set n' \<Longrightarrow> n @ c # v = n' @ c # v' \<Longrightarrow> n = n' \<and> v = v'"
proof -
  assume n: "c \<notin> set n" and n': "c \<notin> set n'" and eq: "n @ c # v = n' @ c # v'"
  have "[n, v] = str_split1 c (n @ c # v)" using str_split1_first [OF n] by simp
  also have "\<dots> = str_split1 c (n' @ c # v')" by (simp only: eq)
  also have "\<dots> = [n', v']" using str_split1_first [OF n'] by simp
  finally show ?thesis by simp
qed

theorem dimension_flag_used_iff_well_formed_witness:
  "fst (get_time_range ok_env 1 fresh) = Inr (''62999996400'', ''63000000000'')
   \<and> calls (snd (metrics_main ok_env
        (Get ''CPUUtilization'' ''AWS/EC2'' (Some ''InstanceId=i-1'') 1 300) fresh)) =
       [(''aws'' # metric_cmd ''AWS/EC2'' ''CPUUtilization'' ''62999996400'' ''63000000000'' 300
           @ [''--dimensions'', ''Name=InstanceId,Value=i-1''], 60)]
   \<and> metrics_main ok_env (Get ''CPUUtilization'' ''AWS/EC2'' (Some ''Name='') 1 300)
       = metrics_main ok_env (Get ''CPUUtilization'' ''AWS/EC2'' None 1 300)"
proof -
  have tw: "time_window (now ok_env) 1 = Inr (62999996400000000, 63000000000000000)"
    by (simp add: time_window_def timedelta_hours_def datetime_sub_def datetime_max_def ok_env_def)
  have s1: "strftime ok_env 62999996400000000 = ''62999996400''"
    by (simp add: ok_env_def whole_seconds_def str_int_def str_nat.simps digit_def)
  have s2: "strftime ok_env 63000000000000000 = ''63000000000''"
    by (simp add: ok_env_def whole_seconds_def str_int_def str_nat.simps digit_def)
  have h: "fst (get_time_range ok_env 1 fresh) = Inr (''62999996400'', ''63000000000'')"
    by (simp add: get_time_range_def prog_defs tw s1 s2)
  have none: "\<nexists>name v. Some ''Name='' = Some (name @ ''='' @ v) \<and> CHR ''='' \<notin> set name
                \<and> name \<noteq> [] \<and> v \<noteq> []"
  proof
    assume "\<exists>name v. Some ''Name='' = Some (name @ ''='' @ v) \<and> CHR ''='' \<notin> set name
                \<and> name \<noteq> [] \<and> v \<noteq> []"
    then obtain name v where eq: "''Name'' @ CHR ''='' # [] = name @ CHR ''='' # v"
      and n: "CHR ''='' \<notin> set name" and v: "v \<noteq> []" by auto
    have "CHR ''='' \<notin> set ''Name''" by simp
    from split_first_unique [OF this n eq] v show False by simp
  qed
  from dimension_flag_used_iff_well_formed
         [OF h, of "Some ''InstanceId=i-1''" "''CPUUtilization''" "''AWS/EC2''" 300]
  have a: "calls (snd (metrics_main ok_env
        (Get ''CPUUtilization'' ''AWS/EC2'' (Some ''InstanceId=i-1'') 1 300) fresh)) =
       calls fresh @ [(''aws'' # metric_cmd ''AWS/EC2'' ''CPUUtilization'' ''62999996400'' ''63000000000'' 300
           @ [''--dimensions'', ''Name='' @ ''InstanceId'' @ '',Value='' @ ''i-1''], 60)]"
    by (elim conjE allE [of _ "''InstanceId''"] allE [of _ "''i-1''"]) simp
  from dimension_flag_used_iff_well_formed
         [OF h, of "Some ''Name=''" "''CPUUtilization''" "''AWS/EC2''" 300] none
  have b: "metrics_main ok_env (Get ''CPUUtilization'' ''AWS/EC2'' (Some ''Name='') 1 300)
       = metrics_main ok_env (Get ''CPUUtilization'' ''AWS/EC2'' None 1 300)"
    by blast
  from h a b show ?thesis by (simp add: fresh_def)
qed

section \<open>Exporting metrics\<close>

lemma export_metrics_run:
  assumes ne: "tmp_name e \<noteq> output_file"
    and se: "fst (get_time_range e hours w) = Inr se"
    and tmp: "file_write e (tmp_name e) (json_dump e queries) = Written"
    and rm: "removable e (tmp_name e)"
    and r: "command_result (subprocess_run e (length (calls w))
              (''aws'' # export_cmd (tmp_name e) (fst se) (snd se)) 120) = Inr r"
  shows "files (snd (export_metrics e output_file hours w)) (tmp_name e) = None"
    and "success r \<Longrightarrow> file_write e output_file (stdout r) = Written \<Longrightarrow>
           fst (export_metrics e output_file hours w) = Inr 0
           \<and> files (snd (export_metrics e output_file hours w)) output_file = Some (stdout r)"
    and "success r \<Longrightarrow> file_write e output_file (stdout r) = OpenRaised \<Longrightarrow>
           fst (export_metrics e output_file hours w) = Inl OSError
           \<and> files (snd (export_metrics e output_file hours w)) output_file = files w output_file"
    and "success r \<Longrightarrow> file_write e output_file (stdout r) = WriteRaised part \<Longrightarrow>
           fst (export_metrics e output_file hours w) = Inl OSError
           \<and> files (snd (export_metrics e output_file hours w)) output_file = Some part"
    and "\<not> success r \<Longrightarrow>
           fst (export_metrics e output_file hours w) = Inr 1
           \<and> files (snd (export_metrics e output_file hours w)) output_file = files w output_file"
proof -
  have g: "get_time_range e hours w' = (Inr se, w')" for w'
    using se by (auto simp: get_time_range_def prog_defs split: sum.splits)
  note defs = export_metrics_def bnd_def thn_def g print_header_def print_info_def
    print_success_def print_error_def emit_def write_file_def unlink_def st_size_def
    try_finally_def aws_def run_aws_command_def ret_def
  show "files (snd (export_metrics e output_file hours w)) (tmp_name e) = None"
    using ne tmp rm r by (simp add: defs split: write_outcome.splits)
  show "fst (export_metrics e output_file hours w) = Inr 0
        \<and> files (snd (export_metrics e output_file hours w)) output_file = Some (stdout r)"
    if "success r" "file_write e output_file (stdout r) = Written"
    using ne tmp rm r that by (simp add: defs)
  show "fst (export_metrics e output_file hours w) = Inl OSError
        \<and> files (snd (export_metrics e output_file hours w)) output_file = files w output_file"
    if "success r" "file_write e output_file (stdout r) = OpenRaised"
    using ne tmp rm r that by (simp add: defs)
  show "fst (export_metrics e output_file hours w) = Inl OSError
        \<and> files (snd (export_metrics e output_file hours w)) output_file = Some part"
    if "success r" "file_write e output_file (stdout r) = WriteRaised part"
    using ne tmp rm r that by (simp add: defs)
  show "fst (export_metrics e output_file hours w) = Inr 1
        \<and> files (snd (export_metrics e output_file hours w)) output_file = files w output_file"
    if "\<not> success r"
    using ne tmp rm r that by (simp add: defs)
qed

lemma export_metrics_tmp_failure:
  assumes se: "fst (get_time_range e hours w) = Inr se"
    and tmp: "file_write e (tmp_name e) (json_dump e queries) \<noteq> Written"
  shows "fst (export_metrics e output_file hours w) = Inl OSError"
    and "calls (snd (export_metrics e output_file hours w)) = calls w"
    and "tmp_name e \<noteq> output_file \<Longrightarrow>
           files (snd (export_metrics e output_file hours w)) output_file = files w output_file"
proof -
  have g: "get_time_range e hours w' = (Inr se, w')" for w'
    using se by (auto simp: get_time_range_def prog_defs split: sum.splits)
  note defs = export_metrics_def bnd_def thn_def g print_header_def print_info_def
    emit_def write_file_def
  show "fst (export_metrics e output_file hours w) = Inl OSError"
    using tmp by (simp add: defs split: write_outcome.splits)
  show "calls (snd (export_metrics e output_file hours w)) = calls w"
    using tmp by (simp add: defs split: write_outcome.splits)
  show "files (snd (export_metrics e output_file hours w)) output_file = files w output_file"
    if "tmp_name e \<noteq> output_file"
    using tmp that by (simp add: defs split: write_outcome.splits)
qed

lemma export_window:
  "time_window 63000000000000000 24 = Inr (62999913600000000, 63000000000000000)"
  by (simp add: time_window_def timedelta_hours_def datetime_sub_def datetime_max_def)

lemma export_time_range:
  "now e = 63000000000000000 \<Longrightarrow> strftime e = (\<lambda>t. str_int (whole_seconds t)) \<Longrightarrow>
     fst (get_time_range e 24 w) = Inr (''62999913600'', ''63000000000'')"
  by (simp add: get_time_range_def prog_defs export_window
        whole_seconds_def str_int_def str_nat.simps digit_def)

text \<open>
  The claim as stated fails where the output file cannot be written: the metric-data
  command succeeds, but \<^verbatim>\<open>open(output_file, "w")\<close> raises, so that
  \<^verbatim>\<open>export_metrics\<close> neither writes the file nor returns 0 (it does not return at
  all).
\<close>

theorem export_unwritable_output_counterexample:
  "succeeds unwritable_env (length (calls fresh))
     (export_cmd (tmp_name unwritable_env) ''62999913600'' ''63000000000'') 120
   \<and> fst (export_metrics unwritable_env ''nodir/metrics.json'' 24 fresh) = Inl OSError
   \<and> files (snd (export_metrics unwritable_env ''nodir/metrics.json'' 24 fresh))
        ''nodir/metrics.json'' = None"
proof -
  have g: "fst (get_time_range unwritable_env 24 fresh) = Inr (''62999913600'', ''63000000000'')"
    by (rule export_time_range) (simp_all add: unwritable_env_def ok_env_def)
  have r: "command_result (subprocess_run unwritable_env (length (calls fresh))
       (''aws'' # export_cmd (tmp_name unwritable_env) (fst (''62999913600'', ''63000000000''))
                    (snd (''62999913600'', ''63000000000''))) 120)
       = Inr \<lparr>success = True, stdout = ''{}'', stderr = [], returncode = 0\<rparr>"
    by (simp add: unwritable_env_def ok_env_def)
  have a: "succeeds unwritable_env (length (calls fresh))
     (export_cmd (tmp_name unwritable_env) ''62999913600'' ''63000000000'') 120"
    using r by (simp add: succeeds_def)
  have "fst (export_metrics unwritable_env ''nodir/metrics.json'' 24 fresh) = Inl OSError
        \<and> files (snd (export_metrics unwritable_env ''nodir/metrics.json'' 24 fresh))
             ''nodir/metrics.json'' = files fresh ''nodir/metrics.json''"
    by (rule export_metrics_run(3) [OF _ g _ _ r])
       (simp_all add: unwritable_env_def ok_env_def)
  with a show ?thesis by (simp add: fresh_def)
qed

text \<open>
  Claim C8, as amended. Let the time range be computed, the temporary queries file be
  created and written and later removed without error (its name is fresh, so it is not
  the output file), and \<^verbatim>\<open>subprocess.run\<close> raise nothing that \<^verbatim>\<open>run_aws_command\<close>
  lets through. Then the temporary file is gone at the end, and
    \<^item> if the metric-data command succeeds and the output file can be written,
      \<^verbatim>\<open>export_metrics\<close> returns 0 and the file holds exactly the command's standard
      output;
    \<^item> if the command succeeds and the output file cannot be opened, an \<^verbatim>\<open>OSError\<close>
      escapes and the output file is as it was;
    \<^item> if the command succeeds and writing the opened file fails, an \<^verbatim>\<open>OSError\<close>
      escapes and the output file holds the part that was written;
    \<^item> if the command fails, \<^verbatim>\<open>export_metrics\<close> returns 1 and the output file is as
      it was.
  If the temporary file cannot be created or written, an \<^verbatim>\<open>OSError\<close> escapes before
  the command is run, and the output file is as it was.
\<close>

theorem export_metrics_file_iff_success:
  "tmp_name e \<noteq> output_file \<Longrightarrow>
   fst (get_time_range e hours w) = Inr se \<Longrightarrow>
     (file_write e (tmp_name e) (json_dump e queries) = Written
      \<and> removable e (tmp_name e)
      \<and> command_result (subprocess_run e (length (calls w))
           (''aws'' # export_cmd (tmp_name e) (fst se) (snd se)) 120) = Inr r \<longrightarrow>
        files (snd (export_metrics e output_file hours w)) (tmp_name e) = None
        \<and> (success r \<and> file_write e output_file (stdout r) = Written \<longrightarrow>
             fst (export_metrics e output_file hours w) = Inr 0
             \<and> files (snd (export_metrics e output_file hours w)) output_file = Some (stdout r))
        \<and> (success r \<and> file_write e output_file (stdout r) = OpenRaised \<longrightarrow>
             fst (export_metrics e output_file hours w) = Inl OSError
             \<and> files (snd (export_metrics e output_file hours w)) output_file
                 = files w output_file)
        \<and> (\<forall>part. success r \<and> file_write e output_file (stdout r) = WriteRaised part \<longrightarrow>
             fst (export_metrics e output_file hours w) = Inl OSError
             \<and> files (snd (export_metrics e output_file hours w)) output_file = Some part)
        \<and> (\<not> success r \<longrightarrow>
             fst (export_metrics e output_file hours w) = Inr 1
             \<and> files (snd (export_metrics e output_file hours w)) output_file
                 = files w output_file))
     \<and> (file_write e (tmp_name e) (json_dump e queries) \<noteq> Written \<longrightarrow>
          fst (export_metrics e output_file hours w) = Inl OSError
          \<and> calls (snd (export_metrics e output_file hours w)) = calls w
          \<and> files (snd (export_metrics e output_file hours w)) output_file
              = files w output_file)"
proof -
  assume ne: "tmp_name e \<noteq> output_file"
    and se: "fst (get_time_range e hours w) = Inr se"
  show ?thesis
  proof (intro conjI impI allI)
    assume "file_write e (tmp_name e) (json_dump e queries) \<noteq> Written"
    note f = export_metrics_tmp_failure [OF se this]
    show "fst (export_metrics e output_file hours w) = Inl OSError" by (rule f(1))
    show "calls (snd (export_metrics e output_file hours w)) = calls w" by (rule f(2))
    show "files (snd (export_metrics e output_file hours w)) output_file = files w output_file"
      using ne by (rule f(3))
  next
    assume h: "file_write e (tmp_name e) (json_dump e queries) = Written
      \<and> removable e (tmp_name e)
      \<and> command_result (subprocess_run e (length (calls w))
           (''aws'' # export_cmd (tmp_name e) (fst se) (snd se)) 120) = Inr r"
    note x = export_metrics_run [OF ne se h [THEN conjunct1] h [THEN conjunct2, THEN conjunct1]
               h [THEN conjunct2, THEN conjunct2]]
    show "files (snd (export_metrics e output_file hours w)) (tmp_name e) = None" by (rule x(1))
    show "fst (export_metrics e output_file hours w) = Inr 0"
      if "success r \<and> file_write e output_file (stdout r) = Written"
      using x(2) that by blast
    show "files (snd (export_metrics e output_file hours w)) output_file = Some (stdout r)"
      if "success r \<and> file_write e output_file (stdout r) = Written"
      using x(2) that by blast
    show "fst (export_metrics e output_file hours w) = Inl OSError"
      if "success r \<and> file_write e output_file (stdout r) = OpenRaised"
      using x(3) that by blast
    show "files (snd (export_metrics e output_file hours w)) output_file = files w output_file"
      if "success r \<and> file_write e output_file (stdout r) = OpenRaised"
      using x(3) that by blast
    show "fst (export_metrics e output_file hours w) = Inl OSError"
      if "success r \<and> file_write e output_file (stdout r) = WriteRaised part" for part
      using x(4) [of part] that by blast
    show "files (snd (export_metrics e output_file hours w)) output_file = Some part"
      if "success r \<and> file_write e output_file (stdout r) = WriteRaised part" for part
      using x(4) [of part] that by blast
    show "fst (export_metrics e output_file hours w) = Inr 1" if "\<not> success r"
      using x(5) that by blast
    show "files (snd (export_metrics e output_file hours w)) output_file = files w output_file"
      if "\<not> success r"
      using x(5) that by blast
  qed
qed

theorem export_metrics_file_iff_success_witness:
  "tmp_name ok_env \<noteq> ''metrics.json''
   \<and> fst (get_time_range ok_env 24 fresh) = Inr (''62999913600'', ''63000000000'')
   \<and> file_write ok_env (tmp_name ok_env) (json_dump ok_env queries) = Written
   \<and> removable ok_env (tmp_name ok_env)
   \<and> fst (export_metrics ok_env ''metrics.json'' 24 fresh) = Inr 0
   \<and> files (snd (export_metrics ok_env ''metrics.json'' 24 fresh)) ''metrics.json'' = Some ''{}''
   \<and> files (snd (export_metrics ok_env ''metrics.json'' 24 fresh)) (tmp_name ok_env) = None
   \<and> fst (export_metrics denied_env ''metrics.json'' 24 fresh) = Inr 1
   \<and> files (snd (export_metrics denied_env ''metrics.json'' 24 fresh)) ''metrics.json'' = None"
proof -
  have ne: "tmp_name ok_env \<noteq> ''metrics.json''" "tmp_name denied_env \<noteq> ''metrics.json''"
    by (simp_all add: ok_env_def denied_env_def)
  have g: "fst (get_time_range ok_env 24 fresh) = Inr (''62999913600'', ''63000000000'')"
          "fst (get_time_range denied_env 24 fresh) = Inr (''62999913600'', ''63000000000'')"
    by (rule export_time_range, simp_all add: ok_env_def denied_env_def)+
  have f: "file_write ok_env (tmp_name ok_env) (json_dump ok_env queries) = Written"
          "removable ok_env (tmp_name ok_env)"
          "file_write denied_env (tmp_name denied_env) (json_dump denied_env queries) = Written"
          "removable denied_env (tmp_name denied_env)"
          "file_write ok_env ''metrics.json'' ''{}'' = Written"
    by (simp_all add: ok_env_def denied_env_def)
  have r1: "command_result (subprocess_run ok_env (length (calls fresh))
       (''aws'' # export_cmd (tmp_name ok_env) (fst (''62999913600'', ''63000000000''))
                    (snd (''62999913600'', ''63000000000''))) 120)
       = Inr \<lparr>success = True, stdout = ''{}'', stderr = [], returncode = 0\<rparr>"
    by (simp add: ok_env_def)
  have r2: "command_result (subprocess_run denied_env (length (calls fresh))
       (''aws'' # export_cmd (tmp_name denied_env) (fst (''62999913600'', ''63000000000''))
                    (snd (''62999913600'', ''63000000000''))) 120)
       = Inr \<lparr>success = False, stdout = [], stderr = ''AccessDenied'', returncode = 255\<rparr>"
    by (simp add: ok_env_def denied_env_def)
  note t1 = export_metrics_file_iff_success [OF ne(1) g(1),
              where r = "\<lparr>success = True, stdout = ''{}'', stderr = [], returncode = 0\<rparr>",
              THEN conjunct1, rule_format, OF conjI [OF f(1) conjI [OF f(2) r1]]]
  note t2 = export_metrics_file_iff_success [OF ne(2) g(2),
              where r = "\<lparr>success = False, stdout = [], stderr = ''AccessDenied'',
                          returncode = 255\<rparr>",
              THEN conjunct1, rule_format, OF conjI [OF f(3) conjI [OF f(4) r2]]]
  from t1 [THEN conjunct1] have a: "files (snd (export_metrics ok_env ''metrics.json'' 24 fresh))
        (tmp_name ok_env) = None" .
  from t1 [THEN conjunct2, THEN conjunct1] f(5)
  have b: "fst (export_metrics ok_env ''metrics.json'' 24 fresh) = Inr 0
     \<and> files (snd (export_metrics ok_env ''metrics.json'' 24 fresh)) ''metrics.json'' = Some ''{}''"
    by simp
  from t2 [THEN conjunct2, THEN conjunct2, THEN conjunct2, THEN conjunct2]
  have c: "fst (export_metrics denied_env ''metrics.json'' 24 fresh) = Inr 1
     \<and> files (snd (export_metrics denied_env ''metrics.json'' 24 fresh)) ''metrics.json'' = None"
    by (simp add: fresh_def)
  from ne(1) g(1) f(1,2) a b c show ?thesis by simp
qed

section \<open>Profile names\<close>















section \<open>Permission probes\<close>

lemma required_loop_failed:
  "required_loop e ts p f w = (Inr pf, w') \<Longrightarrow>
     (snd pf = 0 \<longleftrightarrow>
        f = 0 \<and> (\<forall>i<length ts. succeeds e (length (calls w) + i) (snd (ts ! i)) 30))"
proof (induction ts arbitrary: p f w)
  case Nil
  then show ?case by (auto simp: ret_eq)
next
  case (Cons pc rest)
  from Cons.prems obtain r w1 where
    r: "command_result (subprocess_run e (length (calls w)) (''aws'' # snd pc) 30) = Inr r"
    and rest: "(if success r
                then thn (print_success (fst pc)) (required_loop e rest (p + 1) f)
                else thn (print_error (fst pc)) (required_loop e rest p (f + 1)))
               (w\<lparr>calls := calls w @ [(''aws'' # snd pc, 30)]\<rparr>) = (Inr pf, w')"
    by (auto simp: bnd_Inr_iff aws_eq)
  have s0: "succeeds e (length (calls w)) (snd pc) 30 = success r"
    by (simp add: succeeds_def r)
  show ?case
  proof (cases "success r")
    case True
    with rest have loop: "required_loop e rest (p + 1) f
        (w\<lparr>calls := calls w @ [(''aws'' # snd pc, 30)], out := out w @ [Success (fst pc)]\<rparr>)
        = (Inr pf, w')"
      by (simp add: thn_def bnd_def print_defs emit_def)
    from Cons.IH [OF loop] True s0 show ?thesis
      by (auto simp: less_Suc_eq_0_disj)
  next
    case False
    with rest have loop: "required_loop e rest p (f + 1)
        (w\<lparr>calls := calls w @ [(''aws'' # snd pc, 30)], out := out w @ [Error (fst pc)]\<rparr>)
        = (Inr pf, w')"
      by (simp add: thn_def bnd_def print_defs emit_def)
    from Cons.IH [OF loop] False s0 show ?thesis
      by (auto simp: less_Suc_eq_0_disj)
  qed
qed

lemma check_permissions_value:
  assumes "check_permissions e w = (Inr b, w')"
  shows "b \<longleftrightarrow> (\<forall>i<10. succeeds e (length (calls w) + i) (snd (required_tests ! i)) 30)"
proof -
  define w1 where "w1 = w\<lparr>out := out w @ [Header ''Dash Monitoring Permissions'']\<rparr>"
  have w1: "calls w1 = calls w" by (simp add: w1_def)
  obtain r1 w2 where r1: "required_loop e required_tests 0 0 w1 = (r1, w2)"
    by fastforce
  from assms r1 have "\<exists>pf. r1 = Inr pf \<and> b = (snd pf = 0)"
    by (cases r1)
       (auto simp: check_permissions_def bnd_def thn_def print_defs emit_def ret_def w1_def
             split: prod.splits sum.splits)
  then obtain pf where loop: "required_loop e required_tests 0 0 w1 = (Inr pf, w2)"
    and b: "b = (snd pf = 0)"
    using r1 by blast
  have len: "length required_tests = 10" by (simp add: required_tests_def)
  from required_loop_failed [OF loop] b w1 len show ?thesis by simp
qed

lemma required_loop_returns:
  "no_stray e \<Longrightarrow> \<exists>pf w'. required_loop e ts p f w = (Inr pf, w')"
proof (induction ts arbitrary: p f w)
  case Nil
  then show ?case by (simp add: ret_def)
next
  case (Cons pc rest)
  from Cons.prems obtain r where
    r: "command_result (subprocess_run e (length (calls w)) (''aws'' # snd pc) 30) = Inr r"
    unfolding no_stray_def by blast
  show ?case
    using Cons.IH [OF Cons.prems] r
    by (simp add: bnd_def thn_def aws_def run_aws_command_def print_defs emit_def)
qed

lemma optional_probe_returns:
  "no_stray e \<Longrightarrow> \<exists>w'. optional_probe e pc w = (Inr (), w')"
proof -
  assume "no_stray e"
  then obtain r where
    "command_result (subprocess_run e (length (calls w)) (''aws'' # snd pc) 30) = Inr r"
    unfolding no_stray_def by blast
  then show ?thesis
    by (simp add: optional_probe_def bnd_def aws_def run_aws_command_def print_defs emit_def)
qed

lemma for_each_returns:
  "(\<And>x w. \<exists>w'. f x w = (Inr (), w')) \<Longrightarrow> \<exists>w'. for_each xs f w = (Inr (), w')"
proof (induction xs arbitrary: w)
  case Nil
  then show ?case by (simp add: ret_def)
next
  case (Cons x xs)
  from Cons.prems obtain w1 where "f x w = (Inr (), w1)" by blast
  moreover from Cons.IH [OF Cons.prems] obtain w2 where "for_each xs f w1 = (Inr (), w2)" by blast
  ultimately show ?case by (simp add: thn_def bnd_def)
qed

lemma check_permissions_returns:
  assumes "no_stray e"
  shows "\<exists>b w'. check_permissions e w = (Inr b, w')"
proof -
  obtain pf w2 where
    loop: "required_loop e required_tests 0 0 (w\<lparr>out := out w @ [Header ''Dash Monitoring Permissions'']\<rparr>)
             = (Inr pf, w2)"
    using required_loop_returns [OF assms] by blast
  obtain w3 where
    opt: "for_each optional_tests (optional_probe e)
            (w2\<lparr>out := out w2 @ [Plain [], Info ''Optional permissions (may require service activation):'']\<rparr>)
          = (Inr (), w3)"
    using for_each_returns [of "optional_probe e"] optional_probe_returns [OF assms] by blast
  show ?thesis
    using loop opt
    by (simp add: check_permissions_def bnd_def thn_def print_defs emit_def ret_def)
qed

text \<open>
  Claim C10. \<^verbatim>\<open>check_permissions\<close> returns true exactly when all ten required
  probes (the first ten invocations it makes) succeed. What the four optional probes
  answer does not change the returned value: two environments that agree on the first ten
  invocations give the same value; an optional probe only prints one success or one
  warning line. The function returns whenever no invocation raises a stray exception.
\<close>

theorem check_permissions_iff_required:
  "(no_stray e \<longrightarrow> (\<exists>b. fst (check_permissions e w) = Inr b))
   \<and> (\<forall>b. fst (check_permissions e w) = Inr b \<longrightarrow>
         (b \<longleftrightarrow> (\<forall>i<10. succeeds e (length (calls w) + i) (snd (required_tests ! i)) 30)))
   \<and> (\<forall>e' b b'.
         (\<forall>n<length (calls w) + 10. subprocess_run e' n = subprocess_run e n) \<longrightarrow>
         fst (check_permissions e w) = Inr b \<longrightarrow>
         fst (check_permissions e' w) = Inr b' \<longrightarrow> b' = b)
   \<and> (\<forall>pc w1 w2.
         optional_probe e pc w1 = (Inr (), w2) \<longrightarrow>
         out w2 = out w1 @ [Success (fst pc)]
         \<or> out w2 = out w1 @ [Warning (fst pc @ '' (not available or not enabled)'')])"
proof (intro conjI allI impI)
  fix pc w1 w2
  assume "optional_probe e pc w1 = (Inr (), w2)"
  then show "out w2 = out w1 @ [Success (fst pc)]
         \<or> out w2 = out w1 @ [Warning (fst pc @ '' (not available or not enabled)'')]"
    by (auto simp: optional_probe_def bnd_Inr_iff aws_eq print_defs emit_eq split: if_splits)
next
  assume "no_stray e"
  from check_permissions_returns [OF this, of w]
  show "\<exists>b. fst (check_permissions e w) = Inr b" by auto
next
  fix b
  assume "fst (check_permissions e w) = Inr b"
  then have "check_permissions e w = (Inr b, snd (check_permissions e w))"
    by (metis prod.collapse)
  from check_permissions_value [OF this]
  show "b \<longleftrightarrow> (\<forall>i<10. succeeds e (length (calls w) + i) (snd (required_tests ! i)) 30)" .
next
  fix e' b b'
  assume agree: "\<forall>n<length (calls w) + 10. subprocess_run e' n = subprocess_run e n"
    and rb: "fst (check_permissions e w) = Inr b"
    and rb': "fst (check_permissions e' w) = Inr b'"
  from rb have "check_permissions e w = (Inr b, snd (check_permissions e w))"
    by (metis prod.collapse)
  from check_permissions_value [OF this]
  have 1: "b \<longleftrightarrow> (\<forall>i<10. succeeds e (length (calls w) + i) (snd (required_tests ! i)) 30)" .
  from rb' have "check_permissions e' w = (Inr b', snd (check_permissions e' w))"
    by (metis prod.collapse)
  from check_permissions_value [OF this]
  have 2: "b' \<longleftrightarrow> (\<forall>i<10. succeeds e' (length (calls w) + i) (snd (required_tests ! i)) 30)" .
  have "succeeds e' (length (calls w) + i) c 30 = succeeds e (length (calls w) + i) c 30"
    if "i < 10" for i c
    using agree that by (simp add: succeeds_def)
  with 1 2 show "b' = b" by auto
qed

theorem check_permissions_iff_required_witness:
  "no_stray ok_env
   \<and> fst (check_permissions ok_env fresh) = Inr True
   \<and> no_stray probe_denied_env
   \<and> fst (check_permissions probe_denied_env fresh) = Inr False"
proof -
  have n1: "no_stray ok_env" by (simp add: no_stray_def ok_env_def)
  have n2: "no_stray probe_denied_env"
    by (simp add: no_stray_def probe_denied_env_def ok_env_def)
  have a1: "\<forall>i<10. succeeds ok_env (length (calls fresh) + i) (snd (required_tests ! i)) 30"
    by (simp add: succeeds_def ok_env_def)
  have a2: "\<not> (\<forall>i<10. succeeds probe_denied_env (length (calls fresh) + i)
                 (snd (required_tests ! i)) 30)"
  proof
    assume "\<forall>i<10. succeeds probe_denied_env (length (calls fresh) + i)
                 (snd (required_tests ! i)) 30"
    then have "succeeds probe_denied_env (length (calls fresh) + 5) (snd (required_tests ! 5)) 30"
      by simp
    then show False by (simp add: succeeds_def probe_denied_env_def fresh_def)
  qed
  note t1 = check_permissions_iff_required [of ok_env fresh]
  from t1 [THEN conjunct1] n1 obtain b1 where b1: "fst (check_permissions ok_env fresh) = Inr b1"
    by (elim impE exE)
  from t1 [THEN conjunct2, THEN conjunct1, rule_format, OF b1] a1 have "b1" by simp
  with b1 have r1: "fst (check_permissions ok_env fresh) = Inr True" by simp
  note t2 = check_permissions_iff_required [of probe_denied_env fresh]
  from t2 [THEN conjunct1] n2 obtain b2 where
    b2: "fst (check_permissions probe_denied_env fresh) = Inr b2"
    by (elim impE exE)
  from t2 [THEN conjunct2, THEN conjunct1, rule_format, OF b2] a2 have "\<not> b2" by simp
  with b2 have r2: "fst (check_permissions probe_denied_env fresh) = Inr False" by simp
  from n1 r1 n2 r2 show ?thesis by simp
qed

section \<open>Output that is not JSON\<close>


























section \<open>Exit codes\<close>











































lemma exit_status_cases:
  "(\<And>c. r = Inr c \<Longrightarrow> c = 0 \<or> c = 1) \<Longrightarrow>
     exit_status r \<in> {0, 1}
     \<and> (\<forall>c. r = Inr c \<longrightarrow> exit_status r = c)
     \<and> (\<forall>x. r = Inl x \<longrightarrow> exit_status r = 1)"
  by (cases r) auto






lemma probe_denied_run [simp]:
  "subprocess_run probe_denied_env n args t
     = (if n = 5 then Completed 255 [] ''AccessDenied'' else Completed 0 ''{}'' [])"
  by (simp add: probe_denied_env_def)

lemma probe_denied_fields [simp]:
  "which_aws probe_denied_env = Some ''/usr/local/bin/aws''"
  "environ probe_denied_env = Map.empty"
  "json_loads probe_denied_env ''{}'' = Decoded (JObj [])"
  "py_str probe_denied_env (JStr s) = s"
  by (simp_all add: probe_denied_env_def ok_env_def)




lemma probe_denied_files [simp]:
  "config_file probe_denied_env = config_file ok_env"
  "credentials_file probe_denied_env = credentials_file ok_env"
  by (simp_all add: probe_denied_env_def)





end
